theory Spec2Isabelle
  imports Complex_Main
begin

section \<open>The catalog service: data model\<close>

text \<open>
  A shallow embedding of the HTTP handlers of the catalog service
  (\<^verbatim>\<open>app/catalog/handler.go\<close>, \<^verbatim>\<open>app/categories/handler.go\<close>), of the
  model types (\<^verbatim>\<open>models/*.go\<close>) and of the in-memory repositories the handler
  tests run against (\<^verbatim>\<open>MockProductRepo\<close>, \<^verbatim>\<open>MockCategoryRepo\<close>).

  Go's \<^verbatim>\<open>int\<close> is taken as the 64-bit signed integer: values are HOL integers in
  the range \<open>- 2^63 .. 2^63 - 1\<close>, and the one addition of the sources that can leave
  that range wraps around (\<open>wrap64\<close>). A Go string is a list of bytes, as HOL's
  \<open>string\<close> is. A panic is the result \<open>None\<close>.
\<close>

subsection \<open>Go values the handlers use\<close>

text \<open>
  A \<^verbatim>\<open>float64\<close>: a finite value (kept as the rational number it denotes; the two
  zeros compare equal in Go and are one value here), the two infinities, and NaN. The
  comparisons are the language's: every comparison with NaN is false.
\<close>

datatype float64 = Finite rat | PosInf | NegInf | NaN

fun float64_ge :: "float64 \<Rightarrow> float64 \<Rightarrow> bool" where
  "float64_ge NaN y = False"
| "float64_ge x NaN = False"
| "float64_ge PosInf y = True"
| "float64_ge x NegInf = True"
| "float64_ge (Finite a) (Finite b) = (b \<le> a)"
| "float64_ge (Finite a) PosInf = False"
| "float64_ge NegInf y = False"

fun float64_lt :: "float64 \<Rightarrow> float64 \<Rightarrow> bool" where
  "float64_lt NaN y = False"
| "float64_lt x NaN = False"
| "float64_lt PosInf y = False"
| "float64_lt x NegInf = False"
| "float64_lt (Finite a) (Finite b) = (a < b)"
| "float64_lt (Finite a) PosInf = True"
| "float64_lt NegInf y = True"

text \<open>
  \<^verbatim>\<open>decimal.Decimal\<close> (github.com/shopspring/decimal): the number
  \<open>value * 10 ^ exp\<close>. The zero value \<^verbatim>\<open>decimal.Decimal{}\<close> has value 0.
\<close>

record Decimal =
  dec_value :: int
  dec_exp :: int

definition IsZero :: "Decimal \<Rightarrow> bool" where
  "IsZero d = (dec_value d = 0)"

definition Decimal_rat :: "Decimal \<Rightarrow> rat" where
  "Decimal_rat d =
     (if 0 \<le> dec_exp d then of_int (dec_value d) * 10 ^ nat (dec_exp d)
      else of_int (dec_value d) / 10 ^ nat (- dec_exp d))"

text \<open>
  A Go \<^verbatim>\<open>error\<close>: the sentinel \<^verbatim>\<open>models.ErrProductNotFound\<close>, or any other error
  value with its message (\<^verbatim>\<open>errors.New\<close>, a database error). \<open>Error_text\<close> is the
  method \<^verbatim>\<open>Error()\<close>.
\<close>

datatype error = ErrProductNotFound | errors_New string

fun Error_text :: "error \<Rightarrow> string" where
  "Error_text ErrProductNotFound = ''product not found''"
| "Error_text (errors_New msg) = msg"

subsection \<open>strconv.Atoi\<close>

text \<open>
  \<^verbatim>\<open>strconv.Atoi\<close> is the standard library's: an optional sign, then one or more
  decimal digits, and the value has to fit the 64-bit \<^verbatim>\<open>int\<close>; anything else is an
  error (\<open>None\<close>). \<open>Atoi_digits\<close> is its loop \<^verbatim>\<open>n = n*10 + int(ch)\<close>.
\<close>

definition digit_of :: "char \<Rightarrow> nat option" where
  "digit_of ch =
     (let c = (of_char ch :: nat) in if 48 \<le> c \<and> c \<le> 57 then Some (c - 48) else None)"

fun Atoi_digits :: "nat \<Rightarrow> string \<Rightarrow> nat option" where
  "Atoi_digits n [] = Some n"
| "Atoi_digits n (ch # s) =
     (case digit_of ch of None \<Rightarrow> None | Some d \<Rightarrow> Atoi_digits (n * 10 + d) s)"

definition in_int64 :: "int \<Rightarrow> bool" where
  "in_int64 v = (- (2 ^ 63) \<le> v \<and> v < 2 ^ 63)"

definition Atoi :: "string \<Rightarrow> int option" where
  "Atoi s0 =
     (if s0 = [] then None
      else
        let neg = (hd s0 = CHR ''-'');
            s = (if hd s0 = CHR ''-'' \<or> hd s0 = CHR ''+'' then tl s0 else s0)
        in if s = [] then None
           else (case Atoi_digits 0 s of
                   None \<Rightarrow> None
                 | Some n \<Rightarrow>
                     let v = (if neg then - int n else int n)
                     in if in_int64 v then Some v else None))"

definition wrap64 :: "int \<Rightarrow> int" where
  "wrap64 v = (v + 2 ^ 63) mod 2 ^ 64 - 2 ^ 63"

subsection \<open>The query string\<close>

text \<open>
  \<^verbatim>\<open>url.Values\<close> is a \<^verbatim>\<open>map[string][]string\<close>; \<^verbatim>\<open>Get\<close> returns the first value of
  a key, and the empty string when the key has none.
\<close>

type_synonym Values = "string \<rightharpoonup> string list"

definition Values_Get :: "Values \<Rightarrow> string \<Rightarrow> string" where
  "Values_Get v key = (case v key of None \<Rightarrow> [] | Some [] \<Rightarrow> [] | Some (x # xs) \<Rightarrow> x)"

section \<open>The list endpoint: pagination parameters\<close>

text \<open>
  \<^verbatim>\<open>HandleGet\<close>, lines 51 and 54 to 58: the offset starts at 0 and is replaced by a
  parsed value that is not negative.
\<close>

definition HandleGet_offset :: "Values \<Rightarrow> int" where
  "HandleGet_offset q =
     (let oStr = Values_Get q ''offset''
      in if oStr \<noteq> [] then
           (case Atoi oStr of
              Some o' \<Rightarrow> if 0 \<le> o' then o' else 0
            | None \<Rightarrow> 0)
         else 0)"

text \<open>
  \<^verbatim>\<open>HandleGet\<close>, lines 52 and 60 to 70: the limit starts at 10 and a parsed value is
  clamped to 1 .. 100.
\<close>

definition HandleGet_limit :: "Values \<Rightarrow> int" where
  "HandleGet_limit q =
     (let lStr = Values_Get q ''limit''
      in if lStr \<noteq> [] then
           (case Atoi lStr of
              Some l \<Rightarrow> if l < 1 then 1 else if 100 < l then 100 else l
            | None \<Rightarrow> 10)
         else 10)"

section \<open>Models, responses and the standard library\<close>

text \<open>
  \<^verbatim>\<open>models.Category\<close> and \<^verbatim>\<open>models.Product\<close> as declared. The declaration of
  \<^verbatim>\<open>models.Variant\<close> is not among the sources: the record holds the three fields the
  handler and its test read (\<^verbatim>\<open>Name\<close>, \<^verbatim>\<open>SKU\<close>, \<^verbatim>\<open>Price\<close>).
\<close>

record Category =
  Category_ID :: nat
  Category_Code :: string
  Category_Name :: string

record Variant =
  Variant_Name :: string
  Variant_SKU :: string
  Variant_Price :: Decimal

record Product =
  Product_ID :: nat
  Product_Code :: string
  Product_Price :: Decimal
  Product_CategoryID :: nat
  Product_Category :: Category
  Product_Variants :: "Variant list"

record ProductFilters =
  CategoryCode :: string
  PriceLessThan :: "float64 option"

text \<open>The response types of package \<^verbatim>\<open>catalog\<close>; prices are \<^verbatim>\<open>float64\<close> there.\<close>

record catalog_Category =
  Code :: string
  Name :: string

record catalog_Product =
  RProduct_Code :: string
  RProduct_Price :: float64
  RProduct_Category :: catalog_Category

record catalog_Variant =
  RVariant_Name :: string
  RVariant_SKU :: string
  RVariant_Price :: float64

record Response =
  Total :: int
  Products :: "catalog_Product list"

record ProductDetail =
  Detail_Code :: string
  Detail_Price :: float64
  Detail_Category :: catalog_Category
  Detail_Variants :: "catalog_Variant list"

text \<open>
  What a handler leaves in the \<^verbatim>\<open>http.ResponseWriter\<close>: the status code and the body
  (headers are not modelled). A body is the line \<^verbatim>\<open>http.Error\<close> prints, or the value
  handed to the JSON encoder.
\<close>

datatype payload =
    ListPayload Response
  | DetailPayload ProductDetail
  | MessagePayload "(string \<times> string) list"
  | ErrorPayload string

datatype body = Text string | JSON payload

record ResponseWriter =
  StatusCode :: nat
  Body :: body

definition http_Error :: "string \<Rightarrow> nat \<Rightarrow> ResponseWriter" where
  "http_Error msg code = \<lparr>StatusCode = code, Body = Text msg\<rparr>"

text \<open>
  Modelled from the spec: \<^verbatim>\<open>api.ErrorResponse\<close> of package \<^verbatim>\<open>app/api\<close>, which
  \<^verbatim>\<open>app/categories/handler.go\<close> calls, is not among the sources. By the spec's
  interface (\<^verbatim>\<open>400 {error: ...}\<close>, \<^verbatim>\<open>500 {error: ...}\<close>) and the tests it answers
  with the status and the JSON object \<^verbatim>\<open>{"error": message}\<close>.
\<close>

definition api_ErrorResponse :: "nat \<Rightarrow> string \<Rightarrow> ResponseWriter" where
  "api_ErrorResponse code msg = \<lparr>StatusCode = code, Body = JSON (ErrorPayload msg)\<rparr>"

text \<open>
  \<^verbatim>\<open>json.Encoder.Encode\<close> fails on a \<^verbatim>\<open>float64\<close> that is NaN or infinite
  (\<^verbatim>\<open>json: unsupported value\<close>) and on nothing else these payloads hold.
\<close>

fun float64_text :: "float64 \<Rightarrow> string option" where
  "float64_text (Finite r) = None"
| "float64_text PosInf = Some ''+Inf''"
| "float64_text NegInf = Some ''-Inf''"
| "float64_text NaN = Some ''NaN''"

fun first_unsupported :: "float64 list \<Rightarrow> error option" where
  "first_unsupported [] = None"
| "first_unsupported (f # fs) =
     (case float64_text f of
        Some t \<Rightarrow> Some (errors_New (''json: unsupported value: '' @ t))
      | None \<Rightarrow> first_unsupported fs)"

fun Encode :: "payload \<Rightarrow> error option" where
  "Encode (ListPayload r) = first_unsupported (map RProduct_Price (Products r))"
| "Encode (DetailPayload d) =
     first_unsupported (Detail_Price d # map RVariant_Price (Detail_Variants d))"
| "Encode (MessagePayload kvs) = None"
| "Encode (ErrorPayload msg) = None"

text \<open>
  The library functions whose results the handlers only pass on are parameters:
  \<^verbatim>\<open>strconv.ParseFloat(s, 64)\<close> (\<open>None\<close> when it returns an error),
  \<^verbatim>\<open>Decimal.InexactFloat64\<close> (the \<^verbatim>\<open>float64\<close> nearest to the decimal), and the JSON
  decoder on the body of a category creation (\<open>None\<close> when it returns an error; a
  field the body does not give is the empty string).
\<close>

record CreateInput =
  Input_Code :: string
  Input_Name :: string

record stdlib =
  ParseFloat :: "string \<Rightarrow> float64 option"
  InexactFloat64 :: "Decimal \<Rightarrow> float64"
  Decode :: "string \<Rightarrow> CreateInput option"

section \<open>Package catalog: the handlers\<close>

text \<open>
  The interface \<^verbatim>\<open>ProductProvider\<close>, over a store of state \<open>'s\<close>. A method returns
  its result (\<open>Inl\<close> the error) with the store after the call, or \<open>None\<close> when it
  panics. \<^verbatim>\<open>GetAllProducts\<close> is never called by a handler and is left out.
\<close>

record 's ProductProvider =
  GetFilteredProducts ::
    "int \<Rightarrow> int \<Rightarrow> ProductFilters \<Rightarrow> 's \<Rightarrow> ((error + Product list \<times> int) \<times> 's) option"
  GetByCode :: "string \<Rightarrow> 's \<Rightarrow> ((error + Product) \<times> 's) option"

text \<open>\<^verbatim>\<open>HandleGet\<close>, lines 73 to 85: the filters.\<close>

definition HandleGet_filters :: "stdlib \<Rightarrow> Values \<Rightarrow> ProductFilters" where
  "HandleGet_filters L q =
     (let categoryCode = Values_Get q ''category'';
          priceStr = Values_Get q ''price_lt'';
          priceFilter = (if priceStr \<noteq> [] then ParseFloat L priceStr else None)
      in \<lparr>CategoryCode = categoryCode, PriceLessThan = priceFilter\<rparr>)"

text \<open>\<^verbatim>\<open>HandleGet\<close>, lines 93 to 103: one response product per product of the page.\<close>

definition HandleGet_product :: "stdlib \<Rightarrow> Product \<Rightarrow> catalog_Product" where
  "HandleGet_product L p =
     \<lparr>RProduct_Code = Product_Code p,
      RProduct_Price = InexactFloat64 L (Product_Price p),
      RProduct_Category =
        \<lparr>Code = Category_Code (Product_Category p), Name = Category_Name (Product_Category p)\<rparr>\<rparr>"

text \<open>
  \<^verbatim>\<open>HandleGet\<close>, lines 87 to 112: what is written for a result of the store. On an
  error of the store the handler prints the error's own text.
\<close>

definition HandleGet_respond ::
    "stdlib \<Rightarrow> error + Product list \<times> int \<Rightarrow> ResponseWriter" where
  "HandleGet_respond L result =
     (case result of
        Inl err \<Rightarrow> http_Error (Error_text err) 500
      | Inr (res, total') \<Rightarrow>
          let products = map (HandleGet_product L) res;
              response = \<lparr>Total = total', Products = products\<rparr>
          in (case Encode (ListPayload response) of
                Some err \<Rightarrow> http_Error (Error_text err) 500
              | None \<Rightarrow> \<lparr>StatusCode = 200, Body = JSON (ListPayload response)\<rparr>))"

definition HandleGet ::
    "stdlib \<Rightarrow> 's ProductProvider \<Rightarrow> Values \<Rightarrow> 's \<Rightarrow> (ResponseWriter \<times> 's) option" where
  "HandleGet L repo q s =
     (let offset = HandleGet_offset q;
          limit = HandleGet_limit q;
          filters = HandleGet_filters L q
      in (case GetFilteredProducts repo offset limit filters s of
            None \<Rightarrow> None
          | Some (result, s') \<Rightarrow> Some (HandleGet_respond L result, s')))"

text \<open>
  \<^verbatim>\<open>HandleGetProduct\<close>, lines 125 to 136: a variant's price is its own, and the
  product's when its own is zero.
\<close>

definition HandleGetProduct_variant :: "stdlib \<Rightarrow> Product \<Rightarrow> Variant \<Rightarrow> catalog_Variant" where
  "HandleGetProduct_variant L product v =
     (let price = Variant_Price v;
          price = (if IsZero price then Product_Price product else price)
      in \<lparr>RVariant_Name = Variant_Name v,
          RVariant_SKU = Variant_SKU v,
          RVariant_Price = InexactFloat64 L price\<rparr>)"

text \<open>\<^verbatim>\<open>HandleGetProduct\<close>, lines 125 to 151: the response value.\<close>

definition HandleGetProduct_response :: "stdlib \<Rightarrow> Product \<Rightarrow> ProductDetail" where
  "HandleGetProduct_response L product =
     \<lparr>Detail_Code = Product_Code product,
      Detail_Price = InexactFloat64 L (Product_Price product),
      Detail_Category =
        \<lparr>Code = Category_Code (Product_Category product),
         Name = Category_Name (Product_Category product)\<rparr>,
      Detail_Variants = map (HandleGetProduct_variant L product) (Product_Variants product)\<rparr>"

text \<open>
  \<^verbatim>\<open>HandleGetProduct\<close>, lines 118 to 156: every error of the store is answered with
  404 and the line \<^verbatim>\<open>Product not found\<close>.
\<close>

definition HandleGetProduct_respond :: "stdlib \<Rightarrow> error + Product \<Rightarrow> ResponseWriter" where
  "HandleGetProduct_respond L result =
     (case result of
        Inl err \<Rightarrow> http_Error ''Product not found'' 404
      | Inr product \<Rightarrow>
          let response = HandleGetProduct_response L product
          in (case Encode (DetailPayload response) of
                Some err \<Rightarrow> http_Error (Error_text err) 500
              | None \<Rightarrow> \<lparr>StatusCode = 200, Body = JSON (DetailPayload response)\<rparr>))"

definition HandleGetProduct ::
    "stdlib \<Rightarrow> 's ProductProvider \<Rightarrow> string \<Rightarrow> 's \<Rightarrow> (ResponseWriter \<times> 's) option" where
  "HandleGetProduct L repo code s =
     (case GetByCode repo code s of
        None \<Rightarrow> None
      | Some (result, s') \<Rightarrow> Some (HandleGetProduct_respond L result, s'))"

section \<open>MockProductRepo: the in-memory product store\<close>

record MockProductRepo =
  SourceProducts :: "Product list"
  Err :: "error option"
  lastCalledOffset :: int
  lastCalledLimit :: int
  lastCalledFilters :: ProductFilters
  lastCalledCode :: string

text \<open>
  The body of the filtering loop (lines 44 to 52): \<^verbatim>\<open>match\<close> starts true and each
  filter that is given may clear it. The price test is
  \<^verbatim>\<open>p.Price.InexactFloat64() >= *filters.PriceLessThan\<close>.
\<close>

definition product_match :: "stdlib \<Rightarrow> ProductFilters \<Rightarrow> Product \<Rightarrow> bool" where
  "product_match L filters p =
     (let match = True;
          match = (if CategoryCode filters \<noteq> []
                      \<and> Category_Code (Product_Category p) \<noteq> CategoryCode filters
                   then False else match);
          match = (case PriceLessThan filters of
                     Some x \<Rightarrow>
                       if float64_ge (InexactFloat64 L (Product_Price p)) x then False else match
                   | None \<Rightarrow> match)
      in match)"

text \<open>The loop (lines 42 to 57): the matching products are appended in order.\<close>

fun filter_loop :: "stdlib \<Rightarrow> ProductFilters \<Rightarrow> Product list \<Rightarrow> Product list \<Rightarrow> Product list" where
  "filter_loop L filters [] filteredProducts = filteredProducts"
| "filter_loop L filters (p # ps) filteredProducts =
     filter_loop L filters ps
       (if product_match L filters p then filteredProducts @ [p] else filteredProducts)"

text \<open>
  The slice expression \<^verbatim>\<open>s[low:high]\<close> panics unless \<open>0 \<le> low \<le> high\<close> and
  \<open>high\<close> is within the slice (Go checks \<open>high\<close> against the capacity; the one
  caller never passes more than the length).
\<close>

definition slice :: "'a list \<Rightarrow> int \<Rightarrow> int \<Rightarrow> 'a list option" where
  "slice s low high =
     (if 0 \<le> low \<and> low \<le> high \<and> high \<le> int (length s)
      then Some (take (nat (high - low)) (drop (nat low) s))
      else None)"

text \<open>
  \<^verbatim>\<open>MockProductRepo.GetFilteredProducts\<close> (lines 32 to 72). The sum
  \<^verbatim>\<open>offset + limit\<close> is a 64-bit addition.
\<close>

definition MockProductRepo_GetFilteredProducts ::
    "stdlib \<Rightarrow> int \<Rightarrow> int \<Rightarrow> ProductFilters \<Rightarrow> MockProductRepo
       \<Rightarrow> ((error + Product list \<times> int) \<times> MockProductRepo) option" where
  "MockProductRepo_GetFilteredProducts L offset limit filters m =
     (let m' = m\<lparr>lastCalledOffset := offset, lastCalledLimit := limit,
                 lastCalledFilters := filters\<rparr>
      in (case Err m of
            Some e \<Rightarrow> Some (Inl e, m')
          | None \<Rightarrow>
              let filteredProducts = filter_loop L filters (SourceProducts m) [];
                  len = int (length filteredProducts);
                  total' = len;
                  start = (if len < offset then len else offset);
                  end' = wrap64 (offset + limit);
                  end' = (if len < end' then len else end')
              in (case slice filteredProducts start end' of
                    None \<Rightarrow> None
                  | Some page \<Rightarrow> Some (Inr (page, total'), m'))))"

text \<open>\<^verbatim>\<open>MockProductRepo.GetByCode\<close> (lines 74 to 88) and its search loop.\<close>

fun find_by_code :: "string \<Rightarrow> Product list \<Rightarrow> Product option" where
  "find_by_code code [] = None"
| "find_by_code code (p # ps) = (if Product_Code p = code then Some p else find_by_code code ps)"

definition MockProductRepo_GetByCode ::
    "string \<Rightarrow> MockProductRepo \<Rightarrow> (error + Product) \<times> MockProductRepo" where
  "MockProductRepo_GetByCode code m =
     (let m' = m\<lparr>lastCalledCode := code\<rparr>
      in (case Err m of
            Some e \<Rightarrow> (Inl e, m')
          | None \<Rightarrow>
              (case find_by_code code (SourceProducts m) of
                 Some product \<Rightarrow> (Inr product, m')
               | None \<Rightarrow> (Inl ErrProductNotFound, m'))))"

definition MockProductRepo_provider :: "stdlib \<Rightarrow> MockProductRepo ProductProvider" where
  "MockProductRepo_provider L =
     \<lparr>GetFilteredProducts = MockProductRepo_GetFilteredProducts L,
      GetByCode = (\<lambda>code m. Some (MockProductRepo_GetByCode code m))\<rparr>"

section \<open>Package categories: creating a category\<close>

text \<open>
  The interface \<^verbatim>\<open>CategoryProvider\<close> (the method the creation handler calls) and
  \<^verbatim>\<open>MockCategoryRepo\<close>, which records the category it is asked to create.
\<close>

record 's CategoryProvider =
  CreateCategory :: "Category \<Rightarrow> 's \<Rightarrow> (error option \<times> 's) option"

record MockCategoryRepo =
  Categories :: "Category list"
  CreateErr :: "error option"
  ListErr :: "error option"
  LastSaved :: "Category option"

definition MockCategoryRepo_CreateCategory ::
    "Category \<Rightarrow> MockCategoryRepo \<Rightarrow> error option \<times> MockCategoryRepo" where
  "MockCategoryRepo_CreateCategory cat m = (CreateErr m, m\<lparr>LastSaved := Some cat\<rparr>)"

definition MockCategoryRepo_provider :: "MockCategoryRepo CategoryProvider" where
  "MockCategoryRepo_provider =
     \<lparr>CreateCategory = (\<lambda>cat m. Some (MockCategoryRepo_CreateCategory cat m))\<rparr>"

definition created_message :: payload where
  "created_message = MessagePayload [(''message'', ''Category created successfully'')]"

text \<open>
  \<^verbatim>\<open>HandleCreate\<close> of \<^verbatim>\<open>app/categories/handler.go\<close> (lines 47 to 78), which answers
  errors through \<^verbatim>\<open>api.ErrorResponse\<close>.
\<close>

definition HandleCreate ::
    "stdlib \<Rightarrow> 's CategoryProvider \<Rightarrow> string \<Rightarrow> 's \<Rightarrow> (ResponseWriter \<times> 's) option" where
  "HandleCreate L repo reqBody s =
     (case Decode L reqBody of
        None \<Rightarrow> Some (api_ErrorResponse 400 ''Invalid JSON body'', s)
      | Some input \<Rightarrow>
          if Input_Code input = [] \<or> Input_Name input = []
          then Some (api_ErrorResponse 400 ''Missing code or name'', s)
          else
            let category = \<lparr>Category_ID = 0, Category_Code = Input_Code input,
                             Category_Name = Input_Name input\<rparr>
            in (case CreateCategory repo category s of
                  None \<Rightarrow> None
                | Some (Some err, s') \<Rightarrow>
                    Some (api_ErrorResponse 500 ''Failed to create category'', s')
                | Some (None, s') \<Rightarrow>
                    Some (\<lparr>StatusCode = 201, Body = JSON created_message\<rparr>, s')))"

text \<open>
  The other \<^verbatim>\<open>HandleCreate\<close> among the sources (lines 49 to 79 of its file), which
  answers errors with \<^verbatim>\<open>http.Error\<close>.
\<close>

definition HandleCreate_plain ::
    "stdlib \<Rightarrow> 's CategoryProvider \<Rightarrow> string \<Rightarrow> 's \<Rightarrow> (ResponseWriter \<times> 's) option" where
  "HandleCreate_plain L repo reqBody s =
     (case Decode L reqBody of
        None \<Rightarrow> Some (http_Error ''Invalid JSON body'' 400, s)
      | Some input \<Rightarrow>
          if Input_Code input = [] \<or> Input_Name input = []
          then Some (http_Error ''Missing code or name'' 400, s)
          else
            let category = \<lparr>Category_ID = 0, Category_Code = Input_Code input,
                             Category_Name = Input_Name input\<rparr>
            in (case CreateCategory repo category s of
                  None \<Rightarrow> None
                | Some (Some err, s') \<Rightarrow>
                    Some (http_Error ''Failed to create category'' 500, s')
                | Some (None, s') \<Rightarrow>
                    Some (\<lparr>StatusCode = 201, Body = JSON created_message\<rparr>, s')))"

section \<open>The data of the handler tests\<close>

text \<open>
  \<^verbatim>\<open>newTestProduct\<close> and the product lists of \<^verbatim>\<open>TestHandleGet\<close> and
  \<^verbatim>\<open>TestHandleGetProduct\<close>; a repository literal \<^verbatim>\<open>&MockProductRepo{...}\<close> leaves
  the fields it does not name at their zero values.
\<close>

definition newTestProduct :: "string \<Rightarrow> string \<Rightarrow> string \<Rightarrow> Decimal \<Rightarrow> Product" where
  "newTestProduct code categoryCode categoryName price =
     \<lparr>Product_ID = 0, Product_Code = code, Product_Price = price, Product_CategoryID = 0,
      Product_Category =
        \<lparr>Category_ID = 0, Category_Code = categoryCode, Category_Name = categoryName\<rparr>,
      Product_Variants = []\<rparr>"

definition PROD001 :: Product where
  "PROD001 = newTestProduct ''PROD001'' ''shoes'' ''Shoes'' \<lparr>dec_value = 1999, dec_exp = - 2\<rparr>"

definition PROD002 :: Product where
  "PROD002 = newTestProduct ''PROD002'' ''clothing'' ''Clothing'' \<lparr>dec_value = 2499, dec_exp = - 2\<rparr>"

definition PROD003 :: Product where
  "PROD003 =
     newTestProduct ''PROD003'' ''accessories'' ''Accessories'' \<lparr>dec_value = 1000, dec_exp = - 2\<rparr>"

definition PROD004 :: Product where
  "PROD004 = newTestProduct ''PROD004'' ''clothing'' ''Clothing'' \<lparr>dec_value = 9550, dec_exp = - 2\<rparr>"

definition allMockProducts :: "Product list" where
  "allMockProducts = [PROD001, PROD002, PROD003, PROD004]"

definition new_MockProductRepo :: "Product list \<Rightarrow> error option \<Rightarrow> MockProductRepo" where
  "new_MockProductRepo products err =
     \<lparr>SourceProducts = products, Err = err, lastCalledOffset = 0, lastCalledLimit = 0,
      lastCalledFilters = \<lparr>CategoryCode = [], PriceLessThan = None\<rparr>, lastCalledCode = []\<rparr>"

definition detail_PROD001 :: Product where
  "detail_PROD001 =
     \<lparr>Product_ID = 0, Product_Code = ''PROD001'',
      Product_Price = \<lparr>dec_value = 1550, dec_exp = - 2\<rparr>, Product_CategoryID = 0,
      Product_Category =
        \<lparr>Category_ID = 0, Category_Code = ''clothing'', Category_Name = ''Clothing''\<rparr>,
      Product_Variants =
        [\<lparr>Variant_Name = ''Red Small'', Variant_SKU = ''SKU001-A'',
          Variant_Price = \<lparr>dec_value = 0, dec_exp = 0\<rparr>\<rparr>,
         \<lparr>Variant_Name = ''Red Medium'', Variant_SKU = ''SKU001-B'',
          Variant_Price = \<lparr>dec_value = 1775, dec_exp = - 2\<rparr>\<rparr>]\<rparr>"

definition detail_PROD100 :: Product where
  "detail_PROD100 =
     \<lparr>Product_ID = 0, Product_Code = ''PROD100'',
      Product_Price = \<lparr>dec_value = 3000, dec_exp = - 2\<rparr>, Product_CategoryID = 0,
      Product_Category = \<lparr>Category_ID = 0, Category_Code = ''shoes'', Category_Name = ''Shoes''\<rparr>,
      Product_Variants = []\<rparr>"

definition detail_PROD300 :: Product where
  "detail_PROD300 =
     \<lparr>Product_ID = 0, Product_Code = ''PROD300'',
      Product_Price = \<lparr>dec_value = 0, dec_exp = 0\<rparr>, Product_CategoryID = 0,
      Product_Category = \<lparr>Category_ID = 0, Category_Code = [], Category_Name = []\<rparr>,
      Product_Variants =
        [\<lparr>Variant_Name = ''No Price'', Variant_SKU = ''SKU-ZERO'',
          Variant_Price = \<lparr>dec_value = 0, dec_exp = 0\<rparr>\<rparr>]\<rparr>"

definition detailMockProducts :: "Product list" where
  "detailMockProducts = [detail_PROD001, detail_PROD100, detail_PROD300]"

definition new_MockCategoryRepo :: "error option \<Rightarrow> MockCategoryRepo" where
  "new_MockCategoryRepo err =
     \<lparr>Categories = [], CreateErr = err, ListErr = None, LastSaved = None\<rparr>"

text \<open>
  One instance of the library parameters, for the closed examples: a \<^verbatim>\<open>ParseFloat\<close>
  that knows the integer literals and \<^verbatim>\<open>NaN\<close>, the conversion of a decimal to the
  number it denotes, and a decoder that knows three request bodies (a complete one, one
  with no code, anything else malformed).
\<close>

definition example_ParseFloat :: "string \<Rightarrow> float64 option" where
  "example_ParseFloat s =
     (if s = ''NaN'' then Some NaN
      else (case Atoi s of Some v \<Rightarrow> Some (Finite (of_int v)) | None \<Rightarrow> None))"

definition example_Decode :: "string \<Rightarrow> CreateInput option" where
  "example_Decode s =
     (if s = ''{code:toys,name:Toys}'' then Some \<lparr>Input_Code = ''toys'', Input_Name = ''Toys''\<rparr>
      else if s = ''{name:MissingCode}''
        then Some \<lparr>Input_Code = [], Input_Name = ''MissingCode''\<rparr>
      else None)"

definition example_lib :: stdlib where
  "example_lib =
     \<lparr>ParseFloat = example_ParseFloat,
      InexactFloat64 = (\<lambda>d. Finite (Decimal_rat d)),
      Decode = example_Decode\<rparr>"

text \<open>
  How far a \<^verbatim>\<open>float64\<close> is from a rational number: \<open>float64_within eps f r\<close> when
  \<open>f\<close> is finite and at most \<open>eps\<close> away from \<open>r\<close>. The hypotheses on
  \<^verbatim>\<open>InexactFloat64\<close> are stated with it.
\<close>

definition float64_within :: "rat \<Rightarrow> float64 \<Rightarrow> rat \<Rightarrow> bool" where
  "float64_within eps f r = (case f of Finite a \<Rightarrow> \<bar>a - r\<bar> \<le> eps | _ \<Rightarrow> False)"

text \<open>
  The comparison of a price with a filter value on the numbers themselves: the decimal is
  strictly less than the value of the \<^verbatim>\<open>float64\<close>.
\<close>

fun Decimal_lt_float64 :: "Decimal \<Rightarrow> float64 \<Rightarrow> bool" where
  "Decimal_lt_float64 d (Finite a) = (Decimal_rat d < a)"
| "Decimal_lt_float64 d PosInf = True"
| "Decimal_lt_float64 d NegInf = False"
| "Decimal_lt_float64 d NaN = False"

text \<open>
  A price that no \<^verbatim>\<open>float64\<close> represents, 29.9999999999999999999, and a clothing
  product of that price. The \<^verbatim>\<open>float64\<close> values next to 30 are \<open>30 - 2^-48\<close> and
  \<open>30 + 2^-48\<close>, so the nearest one to this price is 30.
\<close>

definition near_30 :: Decimal where
  "near_30 = \<lparr>dec_value = 299999999999999999999, dec_exp = - 19\<rparr>"

definition PROD_near_30 :: Product where
  "PROD_near_30 = newTestProduct ''PROD030'' ''clothing'' ''Clothing'' near_30"

text \<open>
  A second instance of the library parameters, with the library's value at that price:
  \<^verbatim>\<open>InexactFloat64\<close> gives 30 for it (and, as in the first instance, the number a
  decimal denotes for every other decimal).
\<close>

definition rounding_lib :: stdlib where
  "rounding_lib =
     \<lparr>ParseFloat = example_ParseFloat,
      InexactFloat64 = (\<lambda>d. if d = near_30 then Finite 30 else Finite (Decimal_rat d)),
      Decode = example_Decode\<rparr>"

section \<open>Properties\<close>

subsection \<open>The integer parser on the literals of the tests\<close>

lemma Atoi_empty: "Atoi [] = None"
  by (simp add: Atoi_def)

lemma Atoi_minus_10: "Atoi ''-10'' = Some (- 10)"
  by (simp add: Atoi_def digit_of_def in_int64_def)

lemma Atoi_200: "Atoi ''200'' = Some 200"
  by (simp add: Atoi_def digit_of_def in_int64_def)

lemma Atoi_0: "Atoi ''0'' = Some 0"
  by (simp add: Atoi_def digit_of_def in_int64_def)

lemma Atoi_max: "Atoi ''9223372036854775807'' = Some 9223372036854775807"
  by (simp add: Atoi_def digit_of_def in_int64_def)

lemma Atoi_abc: "Atoi ''abc'' = None"
  by (simp add: Atoi_def digit_of_def)

lemma Atoi_xyz: "Atoi ''xyz'' = None"
  by (simp add: Atoi_def digit_of_def)

lemma Atoi_def_literal: "Atoi ''def'' = None"
  by (simp add: Atoi_def digit_of_def)

lemma Atoi_30: "Atoi ''30'' = Some 30"
  by (simp add: Atoi_def digit_of_def in_int64_def)

subsection \<open>Pagination parameters (C1)\<close>

lemma HandleGet_offset_max:
  "HandleGet_offset q = max (case Atoi (Values_Get q ''offset'') of Some v \<Rightarrow> v | None \<Rightarrow> 0) 0"
  by (simp add: HandleGet_offset_def Let_def Atoi_empty split: option.splits)

lemma HandleGet_limit_clamp:
  "HandleGet_limit q =
     min 100 (max 1 (case Atoi (Values_Get q ''limit'') of Some v \<Rightarrow> v | None \<Rightarrow> 10))"
  by (simp add: HandleGet_limit_def Let_def Atoi_empty split: option.splits)

lemma MockProductRepo_records_call:
  "HandleGet L (MockProductRepo_provider L) q m = Some (w, m') \<Longrightarrow>
     lastCalledOffset m' = HandleGet_offset q \<and> lastCalledLimit m' = HandleGet_limit q
     \<and> lastCalledFilters m' = HandleGet_filters L q"
  by (auto simp: HandleGet_def MockProductRepo_provider_def
      MockProductRepo_GetFilteredProducts_def Let_def split: option.splits)

lemma filter_loop_filter:
  "filter_loop L filters ps acc = acc @ filter (product_match L filters) ps"
  by (induction ps arbitrary: acc) simp_all

lemma product_match_no_filters:
  "product_match L \<lparr>CategoryCode = [], PriceLessThan = None\<rparr> p"
  by (simp add: product_match_def)

lemma HandleGet_example_run:
  "HandleGet example_lib (MockProductRepo_provider example_lib)
     [''offset'' \<mapsto> [''-10''], ''limit'' \<mapsto> [''200'']] (new_MockProductRepo allMockProducts None)
   = Some (HandleGet_respond example_lib (Inr (allMockProducts, 4)),
       (new_MockProductRepo allMockProducts None)
         \<lparr>lastCalledOffset := 0, lastCalledLimit := 100,
          lastCalledFilters := \<lparr>CategoryCode = [], PriceLessThan = None\<rparr>\<rparr>)"
  by (simp add: HandleGet_def MockProductRepo_provider_def MockProductRepo_GetFilteredProducts_def
      HandleGet_offset_def HandleGet_limit_def HandleGet_filters_def Values_Get_def
      Atoi_minus_10 Atoi_200 new_MockProductRepo_def filter_loop_filter product_match_no_filters
      allMockProducts_def wrap64_def slice_def Let_def)

text \<open>
  C1. Whatever the query string holds for \<^verbatim>\<open>offset\<close> and \<^verbatim>\<open>limit\<close>, the list handler
  passes on the offset \<open>max (parse or 0) 0\<close> and the limit \<open>clamp (parse or 10) 1 100\<close>,
  where the parse is \<^verbatim>\<open>strconv.Atoi\<close> and a missing parameter is the empty string,
  which does not parse. These are the values the store is called with (the mock store
  records them). The request \<^verbatim>\<open>offset=-10&limit=200\<close> gives offset 0 and limit 100, and
  \<^verbatim>\<open>limit=0\<close> gives limit 1.
\<close>

theorem HandleGet_normalizes_pagination:
  "HandleGet_offset q = max (case Atoi (Values_Get q ''offset'') of Some v \<Rightarrow> v | None \<Rightarrow> 0) 0
   \<and> HandleGet_limit q =
       min 100 (max 1 (case Atoi (Values_Get q ''limit'') of Some v \<Rightarrow> v | None \<Rightarrow> 10))
   \<and> (HandleGet L (MockProductRepo_provider L) q m = Some (w, m') \<longrightarrow>
        lastCalledOffset m' = HandleGet_offset q \<and> lastCalledLimit m' = HandleGet_limit q)
   \<and> HandleGet_offset [''offset'' \<mapsto> [''-10''], ''limit'' \<mapsto> [''200'']] = 0
   \<and> HandleGet_limit [''offset'' \<mapsto> [''-10''], ''limit'' \<mapsto> [''200'']] = 100
   \<and> HandleGet_limit [''limit'' \<mapsto> [''0'']] = 1"
proof -
  have "HandleGet_offset [''offset'' \<mapsto> [''-10''], ''limit'' \<mapsto> [''200'']] = 0"
    by (simp add: HandleGet_offset_def Values_Get_def Atoi_minus_10)
  moreover have "HandleGet_limit [''offset'' \<mapsto> [''-10''], ''limit'' \<mapsto> [''200'']] = 100"
    by (simp add: HandleGet_limit_def Values_Get_def Atoi_200)
  moreover have "HandleGet_limit [''limit'' \<mapsto> [''0'']] = 1"
    by (simp add: HandleGet_limit_def Values_Get_def Atoi_0)
  ultimately show ?thesis
    using HandleGet_offset_max [of q] HandleGet_limit_clamp [of q]
      MockProductRepo_records_call [of L q m w m']
    by simp
qed

theorem HandleGet_normalizes_pagination_witness:
  "HandleGet example_lib (MockProductRepo_provider example_lib)
     [''offset'' \<mapsto> [''-10''], ''limit'' \<mapsto> [''200'']] (new_MockProductRepo allMockProducts None)
   = Some (HandleGet_respond example_lib (Inr (allMockProducts, 4)),
       (new_MockProductRepo allMockProducts None)
         \<lparr>lastCalledOffset := 0, lastCalledLimit := 100,
          lastCalledFilters := \<lparr>CategoryCode = [], PriceLessThan = None\<rparr>\<rparr>)
   \<and> lastCalledOffset ((new_MockProductRepo allMockProducts None)
         \<lparr>lastCalledOffset := 0, lastCalledLimit := 100,
          lastCalledFilters := \<lparr>CategoryCode = [], PriceLessThan = None\<rparr>\<rparr>)
       = HandleGet_offset [''offset'' \<mapsto> [''-10''], ''limit'' \<mapsto> [''200'']]
   \<and> HandleGet_offset [''offset'' \<mapsto> [''-10''], ''limit'' \<mapsto> [''200'']] = 0"
  using HandleGet_normalizes_pagination [of "[''offset'' \<mapsto> [''-10''], ''limit'' \<mapsto> [''200'']]"
      example_lib "new_MockProductRepo allMockProducts None"
      "HandleGet_respond example_lib (Inr (allMockProducts, 4))"
      "(new_MockProductRepo allMockProducts None)
         \<lparr>lastCalledOffset := 0, lastCalledLimit := 100,
          lastCalledFilters := \<lparr>CategoryCode = [], PriceLessThan = None\<rparr>\<rparr>"]
    HandleGet_example_run
  by simp

subsection \<open>The detail endpoint: variant prices (C2)\<close>

lemma find_by_code_None: "find_by_code code ps = None \<longleftrightarrow> code \<notin> Product_Code ` set ps"
  by (induction ps) auto

lemma HandleGetProduct_mock:
  "HandleGetProduct L (MockProductRepo_provider L) code m =
     Some (HandleGetProduct_respond L (fst (MockProductRepo_GetByCode code m)),
           m\<lparr>lastCalledCode := code\<rparr>)"
  by (simp add: HandleGetProduct_def MockProductRepo_provider_def MockProductRepo_GetByCode_def
      Let_def split: option.splits)

lemma HandleGetProduct_any_error:
  "GetByCode repo code s = Some (Inl err, s') \<Longrightarrow>
     HandleGetProduct L repo code s = Some (http_Error ''Product not found'' 404, s')"
  by (simp add: HandleGetProduct_def HandleGetProduct_respond_def)

text \<open>
  C2. In the detail response every variant keeps its name and SKU and is rendered with
  the \<^verbatim>\<open>float64\<close> of its own price, or of the product's price when its own is zero
  (the zero value of an absent price included). A product the store returns is answered
  with status 200 and this response whenever the encoder accepts it, and the products
  the mock store holds are the same after the request.
\<close>

theorem variant_price_inheritance:
  "length (Detail_Variants (HandleGetProduct_response L p)) = length (Product_Variants p)
   \<and> (\<forall>i < length (Product_Variants p).
        RVariant_Name (Detail_Variants (HandleGetProduct_response L p) ! i)
          = Variant_Name (Product_Variants p ! i)
        \<and> RVariant_SKU (Detail_Variants (HandleGetProduct_response L p) ! i)
          = Variant_SKU (Product_Variants p ! i)
        \<and> RVariant_Price (Detail_Variants (HandleGetProduct_response L p) ! i)
          = InexactFloat64 L
              (if IsZero (Variant_Price (Product_Variants p ! i)) then Product_Price p
               else Variant_Price (Product_Variants p ! i)))
   \<and> (GetByCode repo code s = Some (Inr p, s')
        \<and> Encode (DetailPayload (HandleGetProduct_response L p)) = None \<longrightarrow>
      HandleGetProduct L repo code s =
        Some (\<lparr>StatusCode = 200, Body = JSON (DetailPayload (HandleGetProduct_response L p))\<rparr>, s'))
   \<and> (HandleGetProduct L (MockProductRepo_provider L) code m = Some (w, m') \<longrightarrow>
        SourceProducts m' = SourceProducts m)"
proof -
  have "\<forall>i < length (Product_Variants p).
        RVariant_Name (Detail_Variants (HandleGetProduct_response L p) ! i)
          = Variant_Name (Product_Variants p ! i)
        \<and> RVariant_SKU (Detail_Variants (HandleGetProduct_response L p) ! i)
          = Variant_SKU (Product_Variants p ! i)
        \<and> RVariant_Price (Detail_Variants (HandleGetProduct_response L p) ! i)
          = InexactFloat64 L
              (if IsZero (Variant_Price (Product_Variants p ! i)) then Product_Price p
               else Variant_Price (Product_Variants p ! i))"
    by (simp add: HandleGetProduct_response_def HandleGetProduct_variant_def Let_def)
  moreover have "length (Detail_Variants (HandleGetProduct_response L p)) = length (Product_Variants p)"
    by (simp add: HandleGetProduct_response_def)
  moreover have "GetByCode repo code s = Some (Inr p, s')
        \<and> Encode (DetailPayload (HandleGetProduct_response L p)) = None \<longrightarrow>
      HandleGetProduct L repo code s =
        Some (\<lparr>StatusCode = 200, Body = JSON (DetailPayload (HandleGetProduct_response L p))\<rparr>, s')"
    by (simp add: HandleGetProduct_def HandleGetProduct_respond_def Let_def)
  moreover have "HandleGetProduct L (MockProductRepo_provider L) code m = Some (w, m') \<longrightarrow>
        SourceProducts m' = SourceProducts m"
    by (auto simp: HandleGetProduct_mock)
  ultimately show ?thesis by blast
qed

lemma detail_PROD001_found:
  "GetByCode (MockProductRepo_provider example_lib) ''PROD001''
     (new_MockProductRepo detailMockProducts None)
   = Some (Inr detail_PROD001,
        (new_MockProductRepo detailMockProducts None)\<lparr>lastCalledCode := ''PROD001''\<rparr>)"
  by (simp add: MockProductRepo_provider_def MockProductRepo_GetByCode_def new_MockProductRepo_def
      detailMockProducts_def detail_PROD001_def Let_def)

lemma detail_PROD001_prices:
  "map RVariant_Price (Detail_Variants (HandleGetProduct_response example_lib detail_PROD001))
     = [Finite (31 / 2), Finite (71 / 4)]"
  by (simp add: HandleGetProduct_response_def HandleGetProduct_variant_def IsZero_def Let_def
      detail_PROD001_def example_lib_def Decimal_rat_def)

lemma detail_PROD001_encodes:
  "Encode (DetailPayload (HandleGetProduct_response example_lib detail_PROD001)) = None"
  by (simp add: HandleGetProduct_response_def HandleGetProduct_variant_def IsZero_def Let_def
      detail_PROD001_def example_lib_def)

theorem variant_price_inheritance_witness:
  "HandleGetProduct example_lib (MockProductRepo_provider example_lib) ''PROD001''
     (new_MockProductRepo detailMockProducts None)
   = Some (\<lparr>StatusCode = 200,
            Body = JSON (DetailPayload (HandleGetProduct_response example_lib detail_PROD001))\<rparr>,
          (new_MockProductRepo detailMockProducts None)\<lparr>lastCalledCode := ''PROD001''\<rparr>)
   \<and> RVariant_Price (Detail_Variants (HandleGetProduct_response example_lib detail_PROD001) ! 0)
       = InexactFloat64 example_lib (Product_Price detail_PROD001)
   \<and> RVariant_Price (Detail_Variants (HandleGetProduct_response example_lib detail_PROD001) ! 1)
       = Finite (71 / 4)
   \<and> SourceProducts ((new_MockProductRepo detailMockProducts None)\<lparr>lastCalledCode := ''PROD001''\<rparr>)
       = detailMockProducts"
proof -
  note t = variant_price_inheritance [of example_lib detail_PROD001
      "MockProductRepo_provider example_lib" "''PROD001''"
      "new_MockProductRepo detailMockProducts None"
      "(new_MockProductRepo detailMockProducts None)\<lparr>lastCalledCode := ''PROD001''\<rparr>"]
  have run: "HandleGetProduct example_lib (MockProductRepo_provider example_lib) ''PROD001''
     (new_MockProductRepo detailMockProducts None)
   = Some (\<lparr>StatusCode = 200,
            Body = JSON (DetailPayload (HandleGetProduct_response example_lib detail_PROD001))\<rparr>,
          (new_MockProductRepo detailMockProducts None)\<lparr>lastCalledCode := ''PROD001''\<rparr>)"
    using t detail_PROD001_found detail_PROD001_encodes by simp
  have len: "length (Product_Variants detail_PROD001) = 2"
    by (simp add: detail_PROD001_def)
  have v0: "IsZero (Variant_Price (Product_Variants detail_PROD001 ! 0))"
    by (simp add: detail_PROD001_def IsZero_def)
  have v1: "Variant_Price (Product_Variants detail_PROD001 ! 1) = \<lparr>dec_value = 1775, dec_exp = - 2\<rparr>"
    by (simp add: detail_PROD001_def)
  have p0: "RVariant_Price (Detail_Variants (HandleGetProduct_response example_lib detail_PROD001) ! 0)
       = InexactFloat64 example_lib (Product_Price detail_PROD001)"
    using t len v0 by simp
  have p1: "RVariant_Price (Detail_Variants (HandleGetProduct_response example_lib detail_PROD001) ! 1)
       = Finite (71 / 4)"
    using t len v1 by (simp add: example_lib_def Decimal_rat_def IsZero_def)
  show ?thesis using run p0 p1 by (simp add: new_MockProductRepo_def)
qed

subsection \<open>The detail endpoint: the code and the errors of the store (C10, C6)\<close>

text \<open>
  C10. The detail handler hands the code of the path to the store as it is, the empty
  string included: its answer is the answer to whatever the store returns for that code,
  and the mock store records the code it was called with. When the store reports that no
  product has the code (the mock store does when it has no error set and none of its
  products has the code), the answer is 404 with \<^verbatim>\<open>Product not found\<close>; so it is
  for the empty code over the products of the test.
\<close>

theorem HandleGetProduct_no_validation:
  "HandleGetProduct L repo code s =
     (case GetByCode repo code s of
        None \<Rightarrow> None
      | Some (result, s') \<Rightarrow> Some (HandleGetProduct_respond L result, s'))
   \<and> HandleGetProduct L (MockProductRepo_provider L) code m =
       Some (HandleGetProduct_respond L (fst (MockProductRepo_GetByCode code m)),
             m\<lparr>lastCalledCode := code\<rparr>)
   \<and> (GetByCode repo code s = Some (Inl ErrProductNotFound, s') \<longrightarrow>
        HandleGetProduct L repo code s =
          Some (\<lparr>StatusCode = 404, Body = Text ''Product not found''\<rparr>, s'))
   \<and> (Err m = None \<and> code \<notin> Product_Code ` set (SourceProducts m) \<longrightarrow>
        HandleGetProduct L (MockProductRepo_provider L) code m =
          Some (\<lparr>StatusCode = 404, Body = Text ''Product not found''\<rparr>, m\<lparr>lastCalledCode := code\<rparr>))
   \<and> HandleGetProduct L (MockProductRepo_provider L) [] (new_MockProductRepo detailMockProducts None) =
       Some (\<lparr>StatusCode = 404, Body = Text ''Product not found''\<rparr>,
             (new_MockProductRepo detailMockProducts None)\<lparr>lastCalledCode := []\<rparr>)"
proof -
  have absent: "HandleGetProduct L (MockProductRepo_provider L) c r =
          Some (\<lparr>StatusCode = 404, Body = Text ''Product not found''\<rparr>, r\<lparr>lastCalledCode := c\<rparr>)"
    if "Err r = None" and "c \<notin> Product_Code ` set (SourceProducts r)" for c r
  proof -
    from that(2) have "find_by_code c (SourceProducts r) = None"
      by (simp add: find_by_code_None)
    with that(1) show ?thesis
      by (simp add: HandleGetProduct_mock MockProductRepo_GetByCode_def
          HandleGetProduct_respond_def http_Error_def Let_def)
  qed
  have "Err (new_MockProductRepo detailMockProducts None) = None"
    and "[] \<notin> Product_Code ` set (SourceProducts (new_MockProductRepo detailMockProducts None))"
    by (simp_all add: new_MockProductRepo_def detailMockProducts_def detail_PROD001_def
        detail_PROD100_def detail_PROD300_def)
  then have "HandleGetProduct L (MockProductRepo_provider L) [] (new_MockProductRepo detailMockProducts None) =
       Some (\<lparr>StatusCode = 404, Body = Text ''Product not found''\<rparr>,
             (new_MockProductRepo detailMockProducts None)\<lparr>lastCalledCode := []\<rparr>)"
    by (rule absent)
  moreover have "HandleGetProduct L repo code s =
     (case GetByCode repo code s of
        None \<Rightarrow> None
      | Some (result, s') \<Rightarrow> Some (HandleGetProduct_respond L result, s'))"
    by (simp add: HandleGetProduct_def)
  ultimately show ?thesis
    using absent [of m code] HandleGetProduct_mock [of L code m]
      HandleGetProduct_any_error [of repo code s ErrProductNotFound s' L]
    by (simp add: http_Error_def)
qed

theorem HandleGetProduct_no_validation_witness:
  "Err (new_MockProductRepo allMockProducts None) = None
   \<and> ''NONEXISTENT'' \<notin> Product_Code ` set (SourceProducts (new_MockProductRepo allMockProducts None))
   \<and> HandleGetProduct example_lib (MockProductRepo_provider example_lib) ''NONEXISTENT''
       (new_MockProductRepo allMockProducts None) =
     Some (\<lparr>StatusCode = 404, Body = Text ''Product not found''\<rparr>,
           (new_MockProductRepo allMockProducts None)\<lparr>lastCalledCode := ''NONEXISTENT''\<rparr>)"
proof -
  have h: "Err (new_MockProductRepo allMockProducts None) = None
   \<and> ''NONEXISTENT'' \<notin> Product_Code ` set (SourceProducts (new_MockProductRepo allMockProducts None))"
    by (simp add: new_MockProductRepo_def allMockProducts_def PROD001_def PROD002_def PROD003_def
        PROD004_def newTestProduct_def)
  with HandleGetProduct_no_validation [where L = example_lib
      and repo = "MockProductRepo_provider example_lib" and code = "''NONEXISTENT''"
      and s = "new_MockProductRepo allMockProducts None"
      and m = "new_MockProductRepo allMockProducts None"]
  show ?thesis by blast
qed

text \<open>
  C6. The detail handler does not tell the errors of the store apart: with the mock
  store of the test \<^verbatim>\<open>Repository internal error\<close>, whose every call fails with
  \<^verbatim>\<open>db connection lost\<close>, the answer is 404 \<^verbatim>\<open>Product not found\<close>, where the claim
  (and the test) want 500 \<^verbatim>\<open>Failed to retrieve product\<close>.
\<close>

theorem HandleGetProduct_store_error_is_404:
  "HandleGetProduct example_lib (MockProductRepo_provider example_lib) ''PROD-ERR''
     (new_MockProductRepo [] (Some (errors_New ''db connection lost'')))
   = Some (\<lparr>StatusCode = 404, Body = Text ''Product not found''\<rparr>,
           (new_MockProductRepo [] (Some (errors_New ''db connection lost'')))
             \<lparr>lastCalledCode := ''PROD-ERR''\<rparr>)"
  by (simp add: HandleGetProduct_mock MockProductRepo_GetByCode_def HandleGetProduct_respond_def
      http_Error_def new_MockProductRepo_def Let_def)

subsection \<open>The list endpoint: an error of the store (C7)\<close>

lemma HandleGet_store_error:
  "GetFilteredProducts repo (HandleGet_offset q) (HandleGet_limit q) (HandleGet_filters L q) s
     = Some (Inl err, s') \<Longrightarrow>
   HandleGet L repo q s = Some (\<lparr>StatusCode = 500, Body = Text (Error_text err)\<rparr>, s')"
  by (simp add: HandleGet_def HandleGet_respond_def http_Error_def Let_def)

text \<open>
  C7. On an error of the store the list handler answers 500 with the error's own text:
  with the mock store of the test \<^verbatim>\<open>Repository error\<close> (every call fails with
  \<^verbatim>\<open>db down\<close>) the body is \<^verbatim>\<open>db down\<close>, not \<^verbatim>\<open>failed to get products\<close>.
\<close>

theorem HandleGet_store_error_leaks_text:
  "HandleGet example_lib (MockProductRepo_provider example_lib) Map.empty
     (new_MockProductRepo [] (Some (errors_New ''db down'')))
   = Some (\<lparr>StatusCode = 500, Body = Text ''db down''\<rparr>,
           (new_MockProductRepo [] (Some (errors_New ''db down'')))
             \<lparr>lastCalledOffset := 0, lastCalledLimit := 10,
              lastCalledFilters := \<lparr>CategoryCode = [], PriceLessThan = None\<rparr>\<rparr>)"
  by (simp add: HandleGet_def HandleGet_respond_def http_Error_def MockProductRepo_provider_def
      MockProductRepo_GetFilteredProducts_def HandleGet_offset_def HandleGet_limit_def
      HandleGet_filters_def Values_Get_def new_MockProductRepo_def Let_def)

subsection \<open>Creating a category (C8)\<close>

lemma example_Decode_toys:
  "Decode example_lib ''{code:toys,name:Toys}'' = Some \<lparr>Input_Code = ''toys'', Input_Name = ''Toys''\<rparr>"
  by (simp add: example_lib_def example_Decode_def)

lemma example_Decode_missing:
  "Decode example_lib ''{name:MissingCode}'' = Some \<lparr>Input_Code = [], Input_Name = ''MissingCode''\<rparr>"
  by (simp add: example_lib_def example_Decode_def)

lemma example_Decode_invalid: "Decode example_lib ''{invalid json'' = None"
  by (simp add: example_lib_def example_Decode_def)

text \<open>
  C8. Both creation handlers of the sources answer alike, one through
  \<^verbatim>\<open>api.ErrorResponse\<close> and one through \<^verbatim>\<open>http.Error\<close>: a body the decoder rejects
  gives 400 \<^verbatim>\<open>Invalid JSON body\<close>, and a decoded body with an empty code or name gives
  400 \<^verbatim>\<open>Missing code or name\<close>; in both cases the store is returned as it was, whatever
  the provider is, so its create operation did not run. Otherwise the store's create
  runs once, on the category of that code and name: its error gives 500
  \<^verbatim>\<open>Failed to create category\<close>, its success 201 with the message
  \<^verbatim>\<open>Category created successfully\<close>.
\<close>

theorem HandleCreate_responses:
  "(Decode L reqBody = None \<longrightarrow>
      HandleCreate L repo reqBody s =
        Some (\<lparr>StatusCode = 400, Body = JSON (ErrorPayload ''Invalid JSON body'')\<rparr>, s)
      \<and> HandleCreate_plain L repo reqBody s =
        Some (\<lparr>StatusCode = 400, Body = Text ''Invalid JSON body''\<rparr>, s))
   \<and> (Decode L reqBody = Some input \<and> (Input_Code input = [] \<or> Input_Name input = []) \<longrightarrow>
      HandleCreate L repo reqBody s =
        Some (\<lparr>StatusCode = 400, Body = JSON (ErrorPayload ''Missing code or name'')\<rparr>, s)
      \<and> HandleCreate_plain L repo reqBody s =
        Some (\<lparr>StatusCode = 400, Body = Text ''Missing code or name''\<rparr>, s))
   \<and> (Decode L reqBody = Some input \<and> Input_Code input \<noteq> [] \<and> Input_Name input \<noteq> []
      \<and> CreateCategory repo
           \<lparr>Category_ID = 0, Category_Code = Input_Code input, Category_Name = Input_Name input\<rparr> s
         = Some (Some err, s') \<longrightarrow>
      HandleCreate L repo reqBody s =
        Some (\<lparr>StatusCode = 500, Body = JSON (ErrorPayload ''Failed to create category'')\<rparr>, s')
      \<and> HandleCreate_plain L repo reqBody s =
        Some (\<lparr>StatusCode = 500, Body = Text ''Failed to create category''\<rparr>, s'))
   \<and> (Decode L reqBody = Some input \<and> Input_Code input \<noteq> [] \<and> Input_Name input \<noteq> []
      \<and> CreateCategory repo
           \<lparr>Category_ID = 0, Category_Code = Input_Code input, Category_Name = Input_Name input\<rparr> s
         = Some (None, s') \<longrightarrow>
      HandleCreate L repo reqBody s =
        Some (\<lparr>StatusCode = 201,
               Body = JSON (MessagePayload [(''message'', ''Category created successfully'')])\<rparr>, s')
      \<and> HandleCreate_plain L repo reqBody s =
        Some (\<lparr>StatusCode = 201,
               Body = JSON (MessagePayload [(''message'', ''Category created successfully'')])\<rparr>, s'))"
  by (simp add: HandleCreate_def HandleCreate_plain_def api_ErrorResponse_def http_Error_def
      created_message_def Let_def)

theorem HandleCreate_responses_witness:
  "HandleCreate example_lib MockCategoryRepo_provider ''{invalid json'' (new_MockCategoryRepo None)
     = Some (\<lparr>StatusCode = 400, Body = JSON (ErrorPayload ''Invalid JSON body'')\<rparr>,
             new_MockCategoryRepo None)
   \<and> HandleCreate example_lib MockCategoryRepo_provider ''{name:MissingCode}''
       (new_MockCategoryRepo None)
     = Some (\<lparr>StatusCode = 400, Body = JSON (ErrorPayload ''Missing code or name'')\<rparr>,
             new_MockCategoryRepo None)
   \<and> LastSaved (new_MockCategoryRepo None) = None
   \<and> HandleCreate example_lib MockCategoryRepo_provider ''{code:toys,name:Toys}''
       (new_MockCategoryRepo (Some (errors_New ''insert failed'')))
     = Some (\<lparr>StatusCode = 500, Body = JSON (ErrorPayload ''Failed to create category'')\<rparr>,
             (new_MockCategoryRepo (Some (errors_New ''insert failed'')))
               \<lparr>LastSaved := Some \<lparr>Category_ID = 0, Category_Code = ''toys'', Category_Name = ''Toys''\<rparr>\<rparr>)
   \<and> HandleCreate_plain example_lib MockCategoryRepo_provider ''{code:toys,name:Toys}''
       (new_MockCategoryRepo None)
     = Some (\<lparr>StatusCode = 201,
               Body = JSON (MessagePayload [(''message'', ''Category created successfully'')])\<rparr>,
             (new_MockCategoryRepo None)
               \<lparr>LastSaved := Some \<lparr>Category_ID = 0, Category_Code = ''toys'', Category_Name = ''Toys''\<rparr>\<rparr>)"
proof -
  have c: "CreateCategory MockCategoryRepo_provider
             \<lparr>Category_ID = 0, Category_Code = ''toys'', Category_Name = ''Toys''\<rparr>
             (new_MockCategoryRepo e)
           = Some (e, (new_MockCategoryRepo e)
               \<lparr>LastSaved := Some \<lparr>Category_ID = 0, Category_Code = ''toys'', Category_Name = ''Toys''\<rparr>\<rparr>)"
    for e
    by (simp add: MockCategoryRepo_provider_def MockCategoryRepo_CreateCategory_def
        new_MockCategoryRepo_def)
  show ?thesis
    using HandleCreate_responses [of example_lib "''{invalid json''" MockCategoryRepo_provider
        "new_MockCategoryRepo None"]
      HandleCreate_responses [of example_lib "''{name:MissingCode}''"
        MockCategoryRepo_provider "new_MockCategoryRepo None"
        "\<lparr>Input_Code = [], Input_Name = ''MissingCode''\<rparr>"]
      HandleCreate_responses [of example_lib "''{code:toys,name:Toys}''"
        MockCategoryRepo_provider "new_MockCategoryRepo (Some (errors_New ''insert failed''))"
        "\<lparr>Input_Code = ''toys'', Input_Name = ''Toys''\<rparr>" "errors_New ''insert failed''"
        "(new_MockCategoryRepo (Some (errors_New ''insert failed'')))
               \<lparr>LastSaved := Some \<lparr>Category_ID = 0, Category_Code = ''toys'', Category_Name = ''Toys''\<rparr>\<rparr>"]
      HandleCreate_responses [of example_lib "''{code:toys,name:Toys}''"
        MockCategoryRepo_provider "new_MockCategoryRepo None"
        "\<lparr>Input_Code = ''toys'', Input_Name = ''Toys''\<rparr>" "errors_New ''insert failed''"
        "(new_MockCategoryRepo None)
               \<lparr>LastSaved := Some \<lparr>Category_ID = 0, Category_Code = ''toys'', Category_Name = ''Toys''\<rparr>\<rparr>"]
      example_Decode_toys example_Decode_missing example_Decode_invalid
      c [of None] c [of "Some (errors_New ''insert failed'')"]
    by (simp add: new_MockCategoryRepo_def)
qed

subsection \<open>Pagination in the mock store (C3)\<close>

lemma wrap64_id: "- (2 ^ 63) \<le> v \<Longrightarrow> v < 2 ^ 63 \<Longrightarrow> wrap64 v = v"
  by (simp add: wrap64_def)

lemma wrap64_over:
  assumes "2 ^ 63 \<le> v" and "v < 2 ^ 64"
  shows "wrap64 v = v - 2 ^ 64"
proof -
  have "(v + 2 ^ 63) mod 2 ^ 64 = v - 2 ^ 63"
    by (rule int_mod_pos_eq [where q = 1]) (use assms in simp_all)
  then show ?thesis by (simp add: wrap64_def)
qed

lemma slice_page:
  assumes "0 \<le> offset" and "0 \<le> limit"
  shows "slice F (if int (length F) < offset then int (length F) else offset)
           (if int (length F) < offset + limit then int (length F) else offset + limit)
         = Some (take (nat limit) (drop (nat offset) F))"
proof (cases "int (length F) < offset")
  case True
  then show ?thesis using assms by (simp add: slice_def)
next
  case False
  show ?thesis
  proof (cases "int (length F) < offset + limit")
    case True
    with False assms have "nat (int (length F) - offset) = length F - nat offset"
      and "length F - nat offset \<le> nat limit"
      by linarith+
    with True False assms show ?thesis by (simp add: slice_def)
  next
    case False
    with assms show ?thesis by (simp add: slice_def)
  qed
qed

text \<open>
  Where the sum \<^verbatim>\<open>offset + limit\<close> stays a 64-bit integer the mock store does what C3
  says: the total counts the matching products, and the page is the run of at most
  \<open>limit\<close> matching products from index \<open>offset\<close> on.
\<close>

lemma MockProductRepo_GetFilteredProducts_page:
  assumes "Err m = None" and "0 \<le> offset" and "1 \<le> limit" and "offset + limit < 2 ^ 63"
  shows "MockProductRepo_GetFilteredProducts L offset limit filters m =
           Some (Inr (take (nat limit)
                        (drop (nat offset) (filter (product_match L filters) (SourceProducts m))),
                      int (length (filter (product_match L filters) (SourceProducts m)))),
                 m\<lparr>lastCalledOffset := offset, lastCalledLimit := limit,
                   lastCalledFilters := filters\<rparr>)"
proof -
  from assms have w: "wrap64 (offset + limit) = offset + limit"
    by (intro wrap64_id) simp_all
  from assms have "0 \<le> limit" by simp
  from slice_page [OF assms(2) this, of "filter (product_match L filters) (SourceProducts m)"]
  show ?thesis
    using assms(1) w
    by (simp add: MockProductRepo_GetFilteredProducts_def filter_loop_filter Let_def)
qed

text \<open>Where the sum leaves the 64-bit range the slice expression panics.\<close>

lemma MockProductRepo_GetFilteredProducts_overflow:
  assumes "Err m = None" and "0 \<le> offset" and "1 \<le> limit" and "limit \<le> 100"
    and "offset < 2 ^ 63" and "2 ^ 63 \<le> offset + limit"
  shows "MockProductRepo_GetFilteredProducts L offset limit filters m = None"
proof -
  from assms have "wrap64 (offset + limit) = offset + limit - 2 ^ 64"
    by (intro wrap64_over) simp_all
  with assms have neg: "wrap64 (offset + limit) < 0" by simp
  let ?F = "filter_loop L filters (SourceProducts m) []"
  from neg have e: "(if int (length ?F) < wrap64 (offset + limit) then int (length ?F)
               else wrap64 (offset + limit)) = wrap64 (offset + limit)"
    by simp
  have "slice ?F (if int (length ?F) < offset then int (length ?F) else offset)
          (wrap64 (offset + limit)) = None"
    using neg by (simp add: slice_def)
  with assms(1) e show ?thesis
    by (simp add: MockProductRepo_GetFilteredProducts_def Let_def)
qed

text \<open>
  C3. The mock store breaks the claim at the largest offsets the handler lets through:
  for the request \<^verbatim>\<open>offset=9223372036854775807\<close> (limit 10 by default) the sum
  \<^verbatim>\<open>offset + limit\<close> wraps around to a negative \<^verbatim>\<open>end\<close>, and the slice expression
  panics where the claim wants the total and an empty page. So it does for that offset
  with limit 1.
\<close>

theorem GetFilteredProducts_largest_offset_panics:
  "HandleGet example_lib (MockProductRepo_provider example_lib)
     [''offset'' \<mapsto> [''9223372036854775807'']] (new_MockProductRepo allMockProducts None) = None
   \<and> MockProductRepo_GetFilteredProducts example_lib 9223372036854775807 1
       \<lparr>CategoryCode = [], PriceLessThan = None\<rparr> (new_MockProductRepo allMockProducts None) = None"
proof -
  have e: "Err (new_MockProductRepo allMockProducts None) = None"
    by (simp add: new_MockProductRepo_def)
  have o: "HandleGet_offset [''offset'' \<mapsto> [''9223372036854775807'']] = 9223372036854775807"
    by (simp add: HandleGet_offset_def Values_Get_def Atoi_max)
  have l: "HandleGet_limit [''offset'' \<mapsto> [''9223372036854775807'']] = 10"
    by (simp add: HandleGet_limit_def Values_Get_def)
  have "MockProductRepo_GetFilteredProducts example_lib 9223372036854775807 10 filters
          (new_MockProductRepo allMockProducts None) = None" for filters
    by (rule MockProductRepo_GetFilteredProducts_overflow [OF e]) simp_all
  then have "HandleGet example_lib (MockProductRepo_provider example_lib)
     [''offset'' \<mapsto> [''9223372036854775807'']] (new_MockProductRepo allMockProducts None) = None"
    by (simp add: HandleGet_def MockProductRepo_provider_def o l)
  moreover have "MockProductRepo_GetFilteredProducts example_lib 9223372036854775807 1
       \<lparr>CategoryCode = [], PriceLessThan = None\<rparr> (new_MockProductRepo allMockProducts None) = None"
    by (rule MockProductRepo_GetFilteredProducts_overflow [OF e]) simp_all
  ultimately show ?thesis by simp
qed

subsection \<open>The list endpoint: malformed parameters (C5)\<close>

text \<open>
  C5. No branch of the list handler answers a query parameter with an error. A
  \<^verbatim>\<open>price_lt\<close> that \<^verbatim>\<open>ParseFloat\<close> rejects leaves the price filter absent, an
  \<^verbatim>\<open>offset\<close> or \<^verbatim>\<open>limit\<close> that \<^verbatim>\<open>Atoi\<close> rejects leaves the default 0 or 10, and the
  category is passed on as it is. Whatever the query was, once the store returns a page
  and a total (and the encoder accepts the prices) the answer is 200 with that total and
  that page.
\<close>

theorem HandleGet_never_rejects_parameters:
  "(ParseFloat L (Values_Get q ''price_lt'') = None \<longrightarrow>
      PriceLessThan (HandleGet_filters L q) = None)
   \<and> (Atoi (Values_Get q ''offset'') = None \<longrightarrow> HandleGet_offset q = 0)
   \<and> (Atoi (Values_Get q ''limit'') = None \<longrightarrow> HandleGet_limit q = 10)
   \<and> CategoryCode (HandleGet_filters L q) = Values_Get q ''category''
   \<and> (GetFilteredProducts repo (HandleGet_offset q) (HandleGet_limit q) (HandleGet_filters L q) s
        = Some (Inr (res, n), s')
      \<and> Encode (ListPayload \<lparr>Total = n, Products = map (HandleGet_product L) res\<rparr>) = None \<longrightarrow>
      HandleGet L repo q s =
        Some (\<lparr>StatusCode = 200,
               Body = JSON (ListPayload \<lparr>Total = n, Products = map (HandleGet_product L) res\<rparr>)\<rparr>,
              s'))"
  by (simp add: HandleGet_def HandleGet_respond_def HandleGet_filters_def HandleGet_offset_def
      HandleGet_limit_def Let_def)

lemma allMockProducts_all_match:
  "filter (product_match L \<lparr>CategoryCode = [], PriceLessThan = None\<rparr>) ps = ps"
  by (simp add: product_match_no_filters)

theorem HandleGet_never_rejects_parameters_witness:
  "ParseFloat example_lib (Values_Get [''offset'' \<mapsto> [''abc''], ''limit'' \<mapsto> [''xyz''], ''price_lt'' \<mapsto> [''def'']] ''price_lt'') = None
   \<and> Atoi (Values_Get [''offset'' \<mapsto> [''abc''], ''limit'' \<mapsto> [''xyz''], ''price_lt'' \<mapsto> [''def'']] ''offset'') = None
   \<and> Atoi (Values_Get [''offset'' \<mapsto> [''abc''], ''limit'' \<mapsto> [''xyz''], ''price_lt'' \<mapsto> [''def'']] ''limit'') = None
   \<and> HandleGet example_lib (MockProductRepo_provider example_lib)
       [''offset'' \<mapsto> [''abc''], ''limit'' \<mapsto> [''xyz''], ''price_lt'' \<mapsto> [''def'']]
       (new_MockProductRepo allMockProducts None)
     = Some (\<lparr>StatusCode = 200,
              Body = JSON (ListPayload
                \<lparr>Total = 4, Products = map (HandleGet_product example_lib) allMockProducts\<rparr>)\<rparr>,
            (new_MockProductRepo allMockProducts None)
              \<lparr>lastCalledOffset := 0, lastCalledLimit := 10,
               lastCalledFilters := \<lparr>CategoryCode = [], PriceLessThan = None\<rparr>\<rparr>)"
proof -
  let ?q = "[''offset'' \<mapsto> [''abc''], ''limit'' \<mapsto> [''xyz''], ''price_lt'' \<mapsto> [''def'']]"
  let ?m = "new_MockProductRepo allMockProducts None"
  have p: "ParseFloat example_lib (Values_Get ?q ''price_lt'') = None"
    by (simp add: Values_Get_def example_lib_def example_ParseFloat_def Atoi_def_literal)
  have a: "Atoi (Values_Get ?q ''offset'') = None"
    by (simp add: Values_Get_def Atoi_abc)
  have b: "Atoi (Values_Get ?q ''limit'') = None"
    by (simp add: Values_Get_def Atoi_xyz)
  have c: "Values_Get ?q ''category'' = []"
    by (simp add: Values_Get_def)
  note t = HandleGet_never_rejects_parameters [of example_lib ?q "MockProductRepo_provider example_lib"
      ?m allMockProducts 4
      "?m\<lparr>lastCalledOffset := 0, lastCalledLimit := 10,
          lastCalledFilters := \<lparr>CategoryCode = [], PriceLessThan = None\<rparr>\<rparr>"]
  from t p a b c have o: "HandleGet_offset ?q = 0" and l: "HandleGet_limit ?q = 10"
    and f: "HandleGet_filters example_lib ?q = \<lparr>CategoryCode = [], PriceLessThan = None\<rparr>"
    by simp_all
  have e: "Err ?m = None" and sp: "SourceProducts ?m = allMockProducts"
    by (simp_all add: new_MockProductRepo_def)
  have g: "GetFilteredProducts (MockProductRepo_provider example_lib) 0 10
             \<lparr>CategoryCode = [], PriceLessThan = None\<rparr> ?m
           = Some (Inr (allMockProducts, 4),
               ?m\<lparr>lastCalledOffset := 0, lastCalledLimit := 10,
                  lastCalledFilters := \<lparr>CategoryCode = [], PriceLessThan = None\<rparr>\<rparr>)"
    using MockProductRepo_GetFilteredProducts_page [OF e, of 0 10 example_lib
        "\<lparr>CategoryCode = [], PriceLessThan = None\<rparr>"]
    by (simp add: MockProductRepo_provider_def sp allMockProducts_all_match)
      (simp add: allMockProducts_def)
  have enc: "Encode (ListPayload
      \<lparr>Total = 4, Products = map (HandleGet_product example_lib) allMockProducts\<rparr>) = None"
    by (simp add: allMockProducts_def HandleGet_product_def example_lib_def)
  from t g enc o l f p a b show ?thesis by simp
qed

subsection \<open>The two filters together (C4)\<close>

lemma float64_not_ge_iff_lt: "x \<noteq> NaN \<Longrightarrow> y \<noteq> NaN \<Longrightarrow> \<not> float64_ge x y \<longleftrightarrow> float64_lt x y"
  by (cases x; cases y) auto

lemma float64_ge_NaN: "\<not> float64_ge x NaN"
  by (cases x) simp_all

lemma float64_lt_iff_ge_neq:
  "x \<noteq> NaN \<Longrightarrow> y \<noteq> NaN \<Longrightarrow> float64_lt x y \<longleftrightarrow> float64_ge y x \<and> x \<noteq> y"
  by (cases x; cases y) auto

lemma product_match_both:
  "CategoryCode filters \<noteq> [] \<Longrightarrow> PriceLessThan filters = Some x \<Longrightarrow>
     product_match L filters p \<longleftrightarrow>
       Category_Code (Product_Category p) = CategoryCode filters
       \<and> \<not> float64_ge (InexactFloat64 L (Product_Price p)) x"
  by (simp add: product_match_def)

text \<open>In the terms of the code: both filters given, the price test is a \<^verbatim>\<open>float64\<close> one.\<close>

lemma filtered_both_float64:
  assumes "CategoryCode filters \<noteq> []" and "PriceLessThan filters = Some x"
    and "x \<noteq> NaN" and "InexactFloat64 L (Product_Price p) \<noteq> NaN"
  shows "p \<in> set (filter_loop L filters ps []) \<longleftrightarrow>
           p \<in> set ps \<and> Category_Code (Product_Category p) = CategoryCode filters
           \<and> float64_lt (InexactFloat64 L (Product_Price p)) x"
  using assms
  by (simp add: filter_loop_filter product_match_both float64_not_ge_iff_lt)

text \<open>
  In the terms of the prices themselves, for a conversion that takes no price across the
  filter value: the one price below the filter value that does not match is one whose
  \<^verbatim>\<open>float64\<close> is the filter value.
\<close>

lemma float64_lt_exact:
  assumes "x \<noteq> NaN" and "c \<noteq> NaN"
    and "Decimal_lt_float64 d x \<longrightarrow> float64_ge x c"
    and "\<not> Decimal_lt_float64 d x \<longrightarrow> float64_ge c x"
  shows "float64_lt c x \<longleftrightarrow> Decimal_lt_float64 d x \<and> c \<noteq> x"
proof
  assume lt: "float64_lt c x"
  then have "\<not> float64_ge c x" and "c \<noteq> x"
    by (cases c; cases x; simp)+
  with assms(4) show "Decimal_lt_float64 d x \<and> c \<noteq> x" by blast
next
  assume "Decimal_lt_float64 d x \<and> c \<noteq> x"
  with assms(3) have "float64_ge x c" and "c \<noteq> x" by simp_all
  with assms(1,2) show "float64_lt c x" by (simp add: float64_lt_iff_ge_neq)
qed

lemma filtered_both_NaN:
  assumes "CategoryCode filters \<noteq> []" and "PriceLessThan filters = Some NaN"
  shows "p \<in> set (filter_loop L filters ps []) \<longleftrightarrow>
           p \<in> set ps \<and> Category_Code (Product_Category p) = CategoryCode filters"
  using assms by (simp add: filter_loop_filter product_match_both float64_ge_NaN)

lemma clothing_below_30:
  assumes "list_all (\<lambda>p. float64_within (1 / 100) (InexactFloat64 L (Product_Price p))
                        (Decimal_rat (Product_Price p))) allMockProducts"
  shows "filter (product_match L \<lparr>CategoryCode = ''clothing'', PriceLessThan = Some (Finite 30)\<rparr>)
           allMockProducts = [PROD002]"
    and "Encode (ListPayload \<lparr>Total = 1, Products = [HandleGet_product L PROD002]\<rparr>) = None"
proof -
  let ?f = "\<lparr>CategoryCode = ''clothing'', PriceLessThan = Some (Finite 30)\<rparr>"
  from assms obtain a2 a4
    where a2: "InexactFloat64 L (Product_Price PROD002) = Finite a2"
        "\<bar>a2 - Decimal_rat (Product_Price PROD002)\<bar> \<le> 1 / 100"
      and a4: "InexactFloat64 L (Product_Price PROD004) = Finite a4"
        "\<bar>a4 - Decimal_rat (Product_Price PROD004)\<bar> \<le> 1 / 100"
    by (auto simp: allMockProducts_def float64_within_def split: float64.splits)
  have "Decimal_rat (Product_Price PROD002) = 2499 / 100"
    and "Decimal_rat (Product_Price PROD004) = 9550 / 100"
    by (simp_all add: PROD002_def PROD004_def newTestProduct_def Decimal_rat_def)
  with a2 a4 have "a2 < 30" and "30 \<le> a4" by linarith+
  with a2 a4 have "product_match L ?f PROD002" and "\<not> product_match L ?f PROD004"
    by (simp_all add: product_match_both PROD002_def PROD004_def newTestProduct_def)
  moreover have "\<not> product_match L ?f PROD001" and "\<not> product_match L ?f PROD003"
    by (simp_all add: product_match_both PROD001_def PROD003_def newTestProduct_def)
  ultimately show "filter (product_match L ?f) allMockProducts = [PROD002]"
    by (simp add: allMockProducts_def)
  show "Encode (ListPayload \<lparr>Total = 1, Products = [HandleGet_product L PROD002]\<rparr>) = None"
    using a2 by (simp add: HandleGet_product_def)
qed

lemma clothing_below_30_request:
  assumes "ParseFloat L ''30'' = Some (Finite 30)"
    and "list_all (\<lambda>p. float64_within (1 / 100) (InexactFloat64 L (Product_Price p))
                        (Decimal_rat (Product_Price p))) allMockProducts"
  shows "HandleGet L (MockProductRepo_provider L)
        [''category'' \<mapsto> [''clothing''], ''price_lt'' \<mapsto> [''30'']]
        (new_MockProductRepo allMockProducts None)
      = Some (\<lparr>StatusCode = 200,
               Body = JSON (ListPayload \<lparr>Total = 1, Products = [HandleGet_product L PROD002]\<rparr>)\<rparr>,
             (new_MockProductRepo allMockProducts None)
               \<lparr>lastCalledOffset := 0, lastCalledLimit := 10,
                lastCalledFilters :=
                  \<lparr>CategoryCode = ''clothing'', PriceLessThan = Some (Finite 30)\<rparr>\<rparr>)"
proof -
  let ?q = "[''category'' \<mapsto> [''clothing''], ''price_lt'' \<mapsto> [''30'']]"
  let ?m = "new_MockProductRepo allMockProducts None"
  let ?f = "\<lparr>CategoryCode = ''clothing'', PriceLessThan = Some (Finite 30)\<rparr>"
  from assms(1) have f: "HandleGet_filters L ?q = ?f"
    by (simp add: HandleGet_filters_def Values_Get_def)
  have o: "HandleGet_offset ?q = 0" and l: "HandleGet_limit ?q = 10"
    by (simp_all add: HandleGet_offset_def HandleGet_limit_def Values_Get_def)
  have e: "Err ?m = None" and sp: "SourceProducts ?m = allMockProducts"
    by (simp_all add: new_MockProductRepo_def)
  note fl = clothing_below_30(1) [OF assms(2)] and enc = clothing_below_30(2) [OF assms(2)]
  have g: "MockProductRepo_GetFilteredProducts L 0 10 ?f ?m
           = Some (Inr ([PROD002], 1),
               ?m\<lparr>lastCalledOffset := 0, lastCalledLimit := 10, lastCalledFilters := ?f\<rparr>)"
    using MockProductRepo_GetFilteredProducts_page [OF e, of 0 10 L ?f]
    by (simp add: sp fl)
  show ?thesis
    using g enc
    by (simp add: HandleGet_def HandleGet_respond_def MockProductRepo_provider_def f o l)
qed

text \<open>
  C4, as amended. With a category filter and a price filter, a product is among the
  filtered products exactly when its category code is the filter's and the
  \<^verbatim>\<open>float64\<close> of its price is strictly less than the price filter; in the terms of the
  price itself, when the price is strictly less than the price filter and its
  \<^verbatim>\<open>float64\<close> is not the price filter. The first holds when neither \<^verbatim>\<open>float64\<close> is
  NaN, the second when moreover the conversion takes no price across the price filter
  (a price below it not above it, a price at or above it not below it). With the price
  filter NaN every product of the category is among the filtered products. For the four
  products of the test the request \<^verbatim>\<open>category=clothing&price_lt=30\<close> is answered with
  total 1 and the one product PROD002, given that \<^verbatim>\<open>ParseFloat\<close> reads \<^verbatim>\<open>30\<close> as 30
  and \<^verbatim>\<open>InexactFloat64\<close> is within a cent of each price.
\<close>

theorem filters_are_conjunctive:
  "(CategoryCode filters \<noteq> [] \<and> PriceLessThan filters = Some x
      \<and> x \<noteq> NaN \<and> InexactFloat64 L (Product_Price p) \<noteq> NaN \<longrightarrow>
      (p \<in> set (filter_loop L filters ps []) \<longleftrightarrow>
         p \<in> set ps \<and> Category_Code (Product_Category p) = CategoryCode filters
         \<and> float64_lt (InexactFloat64 L (Product_Price p)) x))
   \<and> (CategoryCode filters \<noteq> [] \<and> PriceLessThan filters = Some x
      \<and> x \<noteq> NaN \<and> InexactFloat64 L (Product_Price p) \<noteq> NaN
      \<and> (Decimal_lt_float64 (Product_Price p) x \<longrightarrow>
           float64_ge x (InexactFloat64 L (Product_Price p)))
      \<and> (\<not> Decimal_lt_float64 (Product_Price p) x \<longrightarrow>
           float64_ge (InexactFloat64 L (Product_Price p)) x) \<longrightarrow>
      (p \<in> set (filter_loop L filters ps []) \<longleftrightarrow>
         p \<in> set ps \<and> Category_Code (Product_Category p) = CategoryCode filters
         \<and> Decimal_lt_float64 (Product_Price p) x
         \<and> InexactFloat64 L (Product_Price p) \<noteq> x))
   \<and> (CategoryCode filters \<noteq> [] \<and> PriceLessThan filters = Some NaN \<longrightarrow>
      (p \<in> set (filter_loop L filters ps []) \<longleftrightarrow>
         p \<in> set ps \<and> Category_Code (Product_Category p) = CategoryCode filters))
   \<and> (ParseFloat L ''30'' = Some (Finite 30)
      \<and> list_all (\<lambda>p. float64_within (1 / 100) (InexactFloat64 L (Product_Price p))
                       (Decimal_rat (Product_Price p))) allMockProducts \<longrightarrow>
      HandleGet L (MockProductRepo_provider L)
        [''category'' \<mapsto> [''clothing''], ''price_lt'' \<mapsto> [''30'']]
        (new_MockProductRepo allMockProducts None)
      = Some (\<lparr>StatusCode = 200,
               Body = JSON (ListPayload \<lparr>Total = 1, Products = [HandleGet_product L PROD002]\<rparr>)\<rparr>,
             (new_MockProductRepo allMockProducts None)
               \<lparr>lastCalledOffset := 0, lastCalledLimit := 10,
                lastCalledFilters :=
                  \<lparr>CategoryCode = ''clothing'', PriceLessThan = Some (Finite 30)\<rparr>\<rparr>))"
proof (intro conjI impI)
  assume "CategoryCode filters \<noteq> [] \<and> PriceLessThan filters = Some x
      \<and> x \<noteq> NaN \<and> InexactFloat64 L (Product_Price p) \<noteq> NaN"
  then show "p \<in> set (filter_loop L filters ps []) \<longleftrightarrow>
         p \<in> set ps \<and> Category_Code (Product_Category p) = CategoryCode filters
         \<and> float64_lt (InexactFloat64 L (Product_Price p)) x"
    by (simp add: filtered_both_float64)
next
  assume h: "CategoryCode filters \<noteq> [] \<and> PriceLessThan filters = Some x
      \<and> x \<noteq> NaN \<and> InexactFloat64 L (Product_Price p) \<noteq> NaN
      \<and> (Decimal_lt_float64 (Product_Price p) x \<longrightarrow>
           float64_ge x (InexactFloat64 L (Product_Price p)))
      \<and> (\<not> Decimal_lt_float64 (Product_Price p) x \<longrightarrow>
           float64_ge (InexactFloat64 L (Product_Price p)) x)"
  then have "float64_lt (InexactFloat64 L (Product_Price p)) x \<longleftrightarrow>
      Decimal_lt_float64 (Product_Price p) x \<and> InexactFloat64 L (Product_Price p) \<noteq> x"
    by (intro float64_lt_exact) simp_all
  with h show "p \<in> set (filter_loop L filters ps []) \<longleftrightarrow>
         p \<in> set ps \<and> Category_Code (Product_Category p) = CategoryCode filters
         \<and> Decimal_lt_float64 (Product_Price p) x
         \<and> InexactFloat64 L (Product_Price p) \<noteq> x"
    by (simp add: filtered_both_float64)
next
  assume "CategoryCode filters \<noteq> [] \<and> PriceLessThan filters = Some NaN"
  then show "p \<in> set (filter_loop L filters ps []) \<longleftrightarrow>
         p \<in> set ps \<and> Category_Code (Product_Category p) = CategoryCode filters"
    by (simp add: filtered_both_NaN)
next
  assume "ParseFloat L ''30'' = Some (Finite 30)
      \<and> list_all (\<lambda>p. float64_within (1 / 100) (InexactFloat64 L (Product_Price p))
                       (Decimal_rat (Product_Price p))) allMockProducts"
  then show "HandleGet L (MockProductRepo_provider L)
        [''category'' \<mapsto> [''clothing''], ''price_lt'' \<mapsto> [''30'']]
        (new_MockProductRepo allMockProducts None)
      = Some (\<lparr>StatusCode = 200,
               Body = JSON (ListPayload \<lparr>Total = 1, Products = [HandleGet_product L PROD002]\<rparr>)\<rparr>,
             (new_MockProductRepo allMockProducts None)
               \<lparr>lastCalledOffset := 0, lastCalledLimit := 10,
                lastCalledFilters :=
                  \<lparr>CategoryCode = ''clothing'', PriceLessThan = Some (Finite 30)\<rparr>\<rparr>)"
    by (simp add: clothing_below_30_request)
qed

lemma example_lib_within:
  "list_all (\<lambda>p. float64_within (1 / 100) (InexactFloat64 example_lib (Product_Price p))
                       (Decimal_rat (Product_Price p))) ps"
  by (simp add: list_all_iff float64_within_def example_lib_def)

lemma example_ParseFloat_30: "example_ParseFloat ''30'' = Some (Finite 30)"
  by (simp add: example_ParseFloat_def Atoi_30)

theorem filters_are_conjunctive_witness:
  "ParseFloat example_lib ''30'' = Some (Finite 30)
   \<and> HandleGet example_lib (MockProductRepo_provider example_lib)
        [''category'' \<mapsto> [''clothing''], ''price_lt'' \<mapsto> [''30'']]
        (new_MockProductRepo allMockProducts None)
      = Some (\<lparr>StatusCode = 200,
               Body = JSON (ListPayload
                 \<lparr>Total = 1, Products = [HandleGet_product example_lib PROD002]\<rparr>)\<rparr>,
             (new_MockProductRepo allMockProducts None)
               \<lparr>lastCalledOffset := 0, lastCalledLimit := 10,
                lastCalledFilters :=
                  \<lparr>CategoryCode = ''clothing'', PriceLessThan = Some (Finite 30)\<rparr>\<rparr>)
   \<and> Decimal_lt_float64 (Product_Price PROD002) (Finite 30)
   \<and> InexactFloat64 example_lib (Product_Price PROD002) \<noteq> Finite 30
   \<and> PROD002 \<in> set (filter_loop example_lib
        \<lparr>CategoryCode = ''clothing'', PriceLessThan = Some (Finite 30)\<rparr> allMockProducts [])
   \<and> \<not> Decimal_lt_float64 (Product_Price PROD004) (Finite 30)
   \<and> PROD004 \<notin> set (filter_loop example_lib
        \<lparr>CategoryCode = ''clothing'', PriceLessThan = Some (Finite 30)\<rparr> allMockProducts [])
   \<and> PROD004 \<in> set (filter_loop example_lib
        \<lparr>CategoryCode = ''clothing'', PriceLessThan = Some NaN\<rparr> allMockProducts [])"
proof -
  let ?f = "\<lparr>CategoryCode = ''clothing'', PriceLessThan = Some (Finite 30)\<rparr>"
  let ?n = "\<lparr>CategoryCode = ''clothing'', PriceLessThan = Some NaN\<rparr>"
  note t2 = filters_are_conjunctive [of ?f "Finite 30" example_lib PROD002 allMockProducts]
  note t4 = filters_are_conjunctive [of ?f "Finite 30" example_lib PROD004 allMockProducts]
  note tn = filters_are_conjunctive [of ?n NaN example_lib PROD004 allMockProducts]
  have p2: "InexactFloat64 example_lib (Product_Price PROD002) = Finite (2499 / 100)"
    and p4: "InexactFloat64 example_lib (Product_Price PROD004) = Finite (9550 / 100)"
    and d2: "Decimal_rat (Product_Price PROD002) = 2499 / 100"
    and d4: "Decimal_rat (Product_Price PROD004) = 9550 / 100"
    by (simp_all add: example_lib_def Decimal_rat_def PROD002_def PROD004_def newTestProduct_def)
  have c2: "Category_Code (Product_Category PROD002) = ''clothing''"
    and c4: "Category_Code (Product_Category PROD004) = ''clothing''"
    and m2: "PROD002 \<in> set allMockProducts" and m4: "PROD004 \<in> set allMockProducts"
    by (simp_all add: PROD002_def PROD004_def newTestProduct_def allMockProducts_def)
  have l2: "Decimal_lt_float64 (Product_Price PROD002) (Finite 30)"
    and l4: "\<not> Decimal_lt_float64 (Product_Price PROD004) (Finite 30)"
    by (simp_all add: d2 d4)
  from t2 p2 c2 m2 l2 have in2: "PROD002 \<in> set (filter_loop example_lib ?f allMockProducts [])"
    by simp
  from t4 p4 l4 have out4: "PROD004 \<notin> set (filter_loop example_lib ?f allMockProducts [])"
    by simp
  from tn c4 m4 have in4: "PROD004 \<in> set (filter_loop example_lib ?n allMockProducts [])"
    by simp
  have pf: "ParseFloat example_lib ''30'' = Some (Finite 30)"
    by (simp add: example_lib_def example_ParseFloat_30)
  from t2 pf example_lib_within [of allMockProducts] in2 out4 in4 l2 l4 p2
  show ?thesis by simp
qed

subsection \<open>A price that rounds to the filter value\<close>

lemma near_30_below_30: "Decimal_rat near_30 < 30"
  by (simp add: near_30_def Decimal_rat_def)

text \<open>The price is closer to 30 than half the distance between 30 and its neighbours.\<close>

lemma near_30_nearest_30: "\<bar>Decimal_rat near_30 - 30\<bar> < 1 / 2 ^ 49"
  by (simp add: near_30_def Decimal_rat_def)

lemma rounding_lib_values:
  "ParseFloat rounding_lib ''30'' = Some (Finite 30)"
  "InexactFloat64 rounding_lib near_30 = Finite 30"
  by (simp_all add: rounding_lib_def example_ParseFloat_30)

lemma near_30_no_match:
  assumes "InexactFloat64 L near_30 = Finite 30"
  shows "\<not> product_match L \<lparr>CategoryCode = c, PriceLessThan = Some (Finite 30)\<rparr> PROD_near_30"
  using assms by (simp add: product_match_def PROD_near_30_def newTestProduct_def)

text \<open>
  Whatever the library is, if it reads \<^verbatim>\<open>30\<close> as 30 and converts the price to 30, the
  request \<^verbatim>\<open>price_lt=30\<close> does not return the product, whose price is below 30.
\<close>

lemma HandleGet_rounding_drift:
  assumes "ParseFloat L ''30'' = Some (Finite 30)" and "InexactFloat64 L near_30 = Finite 30"
  shows "HandleGet L (MockProductRepo_provider L) [''price_lt'' \<mapsto> [''30'']]
           (new_MockProductRepo [PROD_near_30] None)
         = Some (\<lparr>StatusCode = 200, Body = JSON (ListPayload \<lparr>Total = 0, Products = []\<rparr>)\<rparr>,
             (new_MockProductRepo [PROD_near_30] None)
               \<lparr>lastCalledOffset := 0, lastCalledLimit := 10,
                lastCalledFilters := \<lparr>CategoryCode = [], PriceLessThan = Some (Finite 30)\<rparr>\<rparr>)"
proof -
  let ?q = "[''price_lt'' \<mapsto> [''30'']]"
  let ?m = "new_MockProductRepo [PROD_near_30] None"
  let ?f = "\<lparr>CategoryCode = [], PriceLessThan = Some (Finite 30)\<rparr>"
  from assms(1) have f: "HandleGet_filters L ?q = ?f"
    by (simp add: HandleGet_filters_def Values_Get_def)
  have o: "HandleGet_offset ?q = 0" and l: "HandleGet_limit ?q = 10"
    by (simp_all add: HandleGet_offset_def HandleGet_limit_def Values_Get_def)
  have e: "Err ?m = None" and sp: "SourceProducts ?m = [PROD_near_30]"
    by (simp_all add: new_MockProductRepo_def)
  have g: "MockProductRepo_GetFilteredProducts L 0 10 ?f ?m
           = Some (Inr ([], 0),
               ?m\<lparr>lastCalledOffset := 0, lastCalledLimit := 10, lastCalledFilters := ?f\<rparr>)"
    using MockProductRepo_GetFilteredProducts_page [OF e, of 0 10 L ?f]
      near_30_no_match [OF assms(2), of "[]"]
    by (simp add: sp)
  show ?thesis
    using g by (simp add: HandleGet_def HandleGet_respond_def MockProductRepo_provider_def f o l)
qed

lemma HandleGet_exact_conversion_matches:
  "HandleGet example_lib (MockProductRepo_provider example_lib) [''price_lt'' \<mapsto> [''30'']]
           (new_MockProductRepo [PROD_near_30] None)
         = Some (\<lparr>StatusCode = 200,
              Body = JSON (ListPayload
                \<lparr>Total = 1, Products = [HandleGet_product example_lib PROD_near_30]\<rparr>)\<rparr>,
             (new_MockProductRepo [PROD_near_30] None)
               \<lparr>lastCalledOffset := 0, lastCalledLimit := 10,
                lastCalledFilters := \<lparr>CategoryCode = [], PriceLessThan = Some (Finite 30)\<rparr>\<rparr>)"
proof -
  let ?q = "[''price_lt'' \<mapsto> [''30'']]"
  let ?m = "new_MockProductRepo [PROD_near_30] None"
  let ?f = "\<lparr>CategoryCode = [], PriceLessThan = Some (Finite 30)\<rparr>"
  have f: "HandleGet_filters example_lib ?q = ?f"
    by (simp add: HandleGet_filters_def Values_Get_def example_lib_def example_ParseFloat_30)
  have o: "HandleGet_offset ?q = 0" and l: "HandleGet_limit ?q = 10"
    by (simp_all add: HandleGet_offset_def HandleGet_limit_def Values_Get_def)
  have e: "Err ?m = None" and sp: "SourceProducts ?m = [PROD_near_30]"
    by (simp_all add: new_MockProductRepo_def)
  have c: "InexactFloat64 example_lib (Product_Price PROD_near_30) = Finite (Decimal_rat near_30)"
    by (simp add: example_lib_def PROD_near_30_def newTestProduct_def)
  have pm: "product_match example_lib ?f PROD_near_30"
    using near_30_below_30 by (simp add: product_match_def c)
  have g: "MockProductRepo_GetFilteredProducts example_lib 0 10 ?f ?m
           = Some (Inr ([PROD_near_30], 1),
               ?m\<lparr>lastCalledOffset := 0, lastCalledLimit := 10, lastCalledFilters := ?f\<rparr>)"
    using MockProductRepo_GetFilteredProducts_page [OF e, of 0 10 example_lib ?f] pm
    by (simp add: sp)
  have enc: "Encode (ListPayload
      \<lparr>Total = 1, Products = [HandleGet_product example_lib PROD_near_30]\<rparr>) = None"
    by (simp add: HandleGet_product_def c)
  show ?thesis
    using g enc
    by (simp add: HandleGet_def HandleGet_respond_def MockProductRepo_provider_def f o l)
qed

text \<open>
  C4 as it stands fails in two places. A price below the price filter whose \<^verbatim>\<open>float64\<close>
  is the price filter does not match: the clothing product priced 29.9999999999999999999
  is not among the products filtered for clothing below 30. And where the price filter is
  NaN, which \<^verbatim>\<open>ParseFloat\<close> reads from the literal \<^verbatim>\<open>NaN\<close>, both clothing products of
  the test are returned, and no price is less than NaN.
\<close>

theorem price_lt_filter_counterexample:
  "\<not> (PROD_near_30 \<in> set (filter_loop rounding_lib
          \<lparr>CategoryCode = ''clothing'', PriceLessThan = Some (Finite 30)\<rparr> [PROD_near_30] [])
       \<longleftrightarrow> Category_Code (Product_Category PROD_near_30) = ''clothing''
          \<and> Decimal_lt_float64 (Product_Price PROD_near_30) (Finite 30))
   \<and> MockProductRepo_GetFilteredProducts example_lib 0 10
       \<lparr>CategoryCode = ''clothing'', PriceLessThan = Some NaN\<rparr>
       (new_MockProductRepo allMockProducts None)
     = Some (Inr ([PROD002, PROD004], 2),
         (new_MockProductRepo allMockProducts None)
           \<lparr>lastCalledOffset := 0, lastCalledLimit := 10,
            lastCalledFilters := \<lparr>CategoryCode = ''clothing'', PriceLessThan = Some NaN\<rparr>\<rparr>)
   \<and> \<not> (PROD002 \<in> set (filter_loop example_lib
            \<lparr>CategoryCode = ''clothing'', PriceLessThan = Some NaN\<rparr> allMockProducts [])
         \<longleftrightarrow> Category_Code (Product_Category PROD002) = ''clothing''
            \<and> Decimal_lt_float64 (Product_Price PROD002) NaN)"
proof -
  let ?f = "\<lparr>CategoryCode = ''clothing'', PriceLessThan = Some NaN\<rparr>"
  let ?m = "new_MockProductRepo allMockProducts None"
  have fl: "filter (product_match example_lib ?f) allMockProducts = [PROD002, PROD004]"
    by (simp add: allMockProducts_def product_match_both float64_ge_NaN PROD001_def PROD002_def
        PROD003_def PROD004_def newTestProduct_def)
  have e: "Err ?m = None" and sp: "SourceProducts ?m = allMockProducts"
    by (simp_all add: new_MockProductRepo_def)
  have g: "MockProductRepo_GetFilteredProducts example_lib 0 10 ?f ?m
           = Some (Inr ([PROD002, PROD004], 2),
               ?m\<lparr>lastCalledOffset := 0, lastCalledLimit := 10, lastCalledFilters := ?f\<rparr>)"
    using MockProductRepo_GetFilteredProducts_page [OF e, of 0 10 example_lib ?f]
    by (simp add: sp fl)
  have c: "Category_Code (Product_Category PROD_near_30) = ''clothing''"
    and d: "Decimal_lt_float64 (Product_Price PROD_near_30) (Finite 30)"
    using near_30_below_30 by (simp_all add: PROD_near_30_def newTestProduct_def)
  have r: "PROD_near_30 \<notin> set (filter_loop rounding_lib
          \<lparr>CategoryCode = ''clothing'', PriceLessThan = Some (Finite 30)\<rparr> [PROD_near_30] [])"
    using near_30_no_match [OF rounding_lib_values(2), of "''clothing''"]
    by (simp add: filter_loop_filter)
  show ?thesis using g c d r by (simp add: filter_loop_filter fl)
qed

subsection \<open>Exact decimals and binary floating point (C9)\<close>

lemma IsZero_exact: "IsZero d \<longleftrightarrow> Decimal_rat d = 0"
  by (simp add: IsZero_def Decimal_rat_def)

lemma product_match_by_float64:
  assumes "InexactFloat64 L (Product_Price p) = InexactFloat64 L (Product_Price p')"
    and "Category_Code (Product_Category p) = Category_Code (Product_Category p')"
  shows "product_match L filters p = product_match L filters p'"
  unfolding product_match_def assms by (rule refl)

text \<open>
  C9, as amended. Which price a variant is rendered with is decided on the decimal itself:
  the product's price exactly when the variant's own price is the number zero, whatever
  the conversion to \<^verbatim>\<open>float64\<close> is. The price filter is not compared on decimals: its
  value is the \<^verbatim>\<open>float64\<close> that \<^verbatim>\<open>ParseFloat\<close> returns, and a product's price enters the
  comparison only through its \<^verbatim>\<open>float64\<close>, so two products of one category whose prices
  have the same \<^verbatim>\<open>float64\<close> match alike. With a library that reads \<^verbatim>\<open>30\<close> as 30 and
  converts 29.9999999999999999999 to 30, the request \<^verbatim>\<open>price_lt=30\<close> does not return
  the product of that price, which is below 30.
\<close>

theorem inheritance_exact_price_filter_float64:
  "RVariant_Price (HandleGetProduct_variant L product v) =
     InexactFloat64 L
       (if Decimal_rat (Variant_Price v) = 0 then Product_Price product else Variant_Price v)
   \<and> PriceLessThan (HandleGet_filters L q) =
       (if Values_Get q ''price_lt'' \<noteq> [] then ParseFloat L (Values_Get q ''price_lt'') else None)
   \<and> (InexactFloat64 L (Product_Price p) = InexactFloat64 L (Product_Price p')
      \<and> Category_Code (Product_Category p) = Category_Code (Product_Category p') \<longrightarrow>
      product_match L filters p = product_match L filters p')
   \<and> (ParseFloat L ''30'' = Some (Finite 30) \<and> InexactFloat64 L near_30 = Finite 30 \<longrightarrow>
      Decimal_rat (Product_Price PROD_near_30) < 30
      \<and> HandleGet L (MockProductRepo_provider L) [''price_lt'' \<mapsto> [''30'']]
           (new_MockProductRepo [PROD_near_30] None)
         = Some (\<lparr>StatusCode = 200, Body = JSON (ListPayload \<lparr>Total = 0, Products = []\<rparr>)\<rparr>,
             (new_MockProductRepo [PROD_near_30] None)
               \<lparr>lastCalledOffset := 0, lastCalledLimit := 10,
                lastCalledFilters := \<lparr>CategoryCode = [], PriceLessThan = Some (Finite 30)\<rparr>\<rparr>))"
proof -
  have "RVariant_Price (HandleGetProduct_variant L product v) =
     InexactFloat64 L
       (if Decimal_rat (Variant_Price v) = 0 then Product_Price product else Variant_Price v)"
    by (simp add: HandleGetProduct_variant_def IsZero_exact Let_def)
  moreover have "PriceLessThan (HandleGet_filters L q) =
       (if Values_Get q ''price_lt'' \<noteq> [] then ParseFloat L (Values_Get q ''price_lt'') else None)"
    by (simp add: HandleGet_filters_def Let_def)
  moreover have "Decimal_rat (Product_Price PROD_near_30) < 30"
    using near_30_below_30 by (simp add: PROD_near_30_def newTestProduct_def)
  moreover have "InexactFloat64 L (Product_Price p) = InexactFloat64 L (Product_Price p')
      \<and> Category_Code (Product_Category p) = Category_Code (Product_Category p') \<longrightarrow>
      product_match L filters p = product_match L filters p'"
  proof
    assume "InexactFloat64 L (Product_Price p) = InexactFloat64 L (Product_Price p')
      \<and> Category_Code (Product_Category p) = Category_Code (Product_Category p')"
    then have "InexactFloat64 L (Product_Price p) = InexactFloat64 L (Product_Price p')"
      and "Category_Code (Product_Category p) = Category_Code (Product_Category p')"
      by blast+
    then show "product_match L filters p = product_match L filters p'"
      by (rule product_match_by_float64)
  qed
  moreover have "ParseFloat L ''30'' = Some (Finite 30) \<and> InexactFloat64 L near_30 = Finite 30 \<longrightarrow>
      HandleGet L (MockProductRepo_provider L) [''price_lt'' \<mapsto> [''30'']]
           (new_MockProductRepo [PROD_near_30] None)
         = Some (\<lparr>StatusCode = 200, Body = JSON (ListPayload \<lparr>Total = 0, Products = []\<rparr>)\<rparr>,
             (new_MockProductRepo [PROD_near_30] None)
               \<lparr>lastCalledOffset := 0, lastCalledLimit := 10,
                lastCalledFilters := \<lparr>CategoryCode = [], PriceLessThan = Some (Finite 30)\<rparr>\<rparr>)"
    by (blast intro: HandleGet_rounding_drift)
  ultimately show ?thesis by blast
qed

theorem inheritance_exact_price_filter_float64_witness:
  "ParseFloat rounding_lib ''30'' = Some (Finite 30)
   \<and> InexactFloat64 rounding_lib near_30 = Finite 30
   \<and> HandleGet rounding_lib (MockProductRepo_provider rounding_lib) [''price_lt'' \<mapsto> [''30'']]
           (new_MockProductRepo [PROD_near_30] None)
         = Some (\<lparr>StatusCode = 200, Body = JSON (ListPayload \<lparr>Total = 0, Products = []\<rparr>)\<rparr>,
             (new_MockProductRepo [PROD_near_30] None)
               \<lparr>lastCalledOffset := 0, lastCalledLimit := 10,
                lastCalledFilters := \<lparr>CategoryCode = [], PriceLessThan = Some (Finite 30)\<rparr>\<rparr>)
   \<and> InexactFloat64 rounding_lib (Product_Price PROD_near_30)
       = InexactFloat64 rounding_lib
           (Product_Price (PROD_near_30\<lparr>Product_Price := \<lparr>dec_value = 30, dec_exp = 0\<rparr>\<rparr>))
   \<and> product_match rounding_lib \<lparr>CategoryCode = [], PriceLessThan = Some (Finite 30)\<rparr> PROD_near_30
       = product_match rounding_lib \<lparr>CategoryCode = [], PriceLessThan = Some (Finite 30)\<rparr>
           (PROD_near_30\<lparr>Product_Price := \<lparr>dec_value = 30, dec_exp = 0\<rparr>\<rparr>)
   \<and> RVariant_Price (HandleGetProduct_variant rounding_lib detail_PROD001
         (hd (Product_Variants detail_PROD001)))
       = InexactFloat64 rounding_lib (Product_Price detail_PROD001)"
proof -
  let ?p' = "PROD_near_30\<lparr>Product_Price := \<lparr>dec_value = 30, dec_exp = 0\<rparr>\<rparr>"
  note t = inheritance_exact_price_filter_float64 [where L = rounding_lib
      and product = detail_PROD001 and v = "hd (Product_Variants detail_PROD001)"
      and p = PROD_near_30 and p' = ?p'
      and filters = "\<lparr>CategoryCode = [], PriceLessThan = Some (Finite 30)\<rparr>"]
  have same: "InexactFloat64 rounding_lib (Product_Price PROD_near_30)
       = InexactFloat64 rounding_lib (Product_Price ?p')"
    by (simp add: rounding_lib_def PROD_near_30_def newTestProduct_def near_30_def Decimal_rat_def)
  have cat: "Category_Code (Product_Category PROD_near_30) = Category_Code (Product_Category ?p')"
    by simp
  have z: "Decimal_rat (Variant_Price (hd (Product_Variants detail_PROD001))) = 0"
    by (simp add: detail_PROD001_def Decimal_rat_def)
  from t z have v: "RVariant_Price (HandleGetProduct_variant rounding_lib detail_PROD001
         (hd (Product_Variants detail_PROD001)))
       = InexactFloat64 rounding_lib (Product_Price detail_PROD001)"
    by simp
  from t same cat have m: "product_match rounding_lib
         \<lparr>CategoryCode = [], PriceLessThan = Some (Finite 30)\<rparr> PROD_near_30
       = product_match rounding_lib \<lparr>CategoryCode = [], PriceLessThan = Some (Finite 30)\<rparr> ?p'"
    by blast
  from t rounding_lib_values have h: "HandleGet rounding_lib (MockProductRepo_provider rounding_lib)
           [''price_lt'' \<mapsto> [''30'']] (new_MockProductRepo [PROD_near_30] None)
         = Some (\<lparr>StatusCode = 200, Body = JSON (ListPayload \<lparr>Total = 0, Products = []\<rparr>)\<rparr>,
             (new_MockProductRepo [PROD_near_30] None)
               \<lparr>lastCalledOffset := 0, lastCalledLimit := 10,
                lastCalledFilters := \<lparr>CategoryCode = [], PriceLessThan = Some (Finite 30)\<rparr>\<rparr>)"
    by blast
  from v m h same rounding_lib_values show ?thesis by blast
qed

text \<open>
  C9 as it stands fails for the price filter: the product priced 29.9999999999999999999
  is below 30, and the request \<^verbatim>\<open>price_lt=30\<close> returns it when the conversion is exact
  and does not return it with the library's conversion, which rounds that price to 30.
\<close>

theorem price_filter_rounding_counterexample:
  "Decimal_rat (Product_Price PROD_near_30) < 30
   \<and> HandleGet rounding_lib (MockProductRepo_provider rounding_lib) [''price_lt'' \<mapsto> [''30'']]
           (new_MockProductRepo [PROD_near_30] None)
         = Some (\<lparr>StatusCode = 200, Body = JSON (ListPayload \<lparr>Total = 0, Products = []\<rparr>)\<rparr>,
             (new_MockProductRepo [PROD_near_30] None)
               \<lparr>lastCalledOffset := 0, lastCalledLimit := 10,
                lastCalledFilters := \<lparr>CategoryCode = [], PriceLessThan = Some (Finite 30)\<rparr>\<rparr>)
   \<and> HandleGet example_lib (MockProductRepo_provider example_lib) [''price_lt'' \<mapsto> [''30'']]
           (new_MockProductRepo [PROD_near_30] None)
         = Some (\<lparr>StatusCode = 200,
              Body = JSON (ListPayload
                \<lparr>Total = 1, Products = [HandleGet_product example_lib PROD_near_30]\<rparr>)\<rparr>,
             (new_MockProductRepo [PROD_near_30] None)
               \<lparr>lastCalledOffset := 0, lastCalledLimit := 10,
                lastCalledFilters := \<lparr>CategoryCode = [], PriceLessThan = Some (Finite 30)\<rparr>\<rparr>)"
proof -
  have "Decimal_rat (Product_Price PROD_near_30) < 30"
    using near_30_below_30 by (simp add: PROD_near_30_def newTestProduct_def)
  with HandleGet_rounding_drift [OF rounding_lib_values] HandleGet_exact_conversion_matches
  show ?thesis by blast
qed

end
